theory Spec2Isabelle
  imports Complex_Main "HOL-Library.Log_Nat" "HOL-Library.Multiset"
begin

section \<open>The harmonic compatibility engine of Intune\<close>

text \<open>
  A shallow embedding of \<^verbatim>\<open>backend/services/harmonicCompatibility.js\<close>, the class
  \<^verbatim>\<open>HarmonicCompatibilityEngine\<close>.

  Conventions of the embedding.
  \<^item> A JavaScript string is a \<open>string\<close>, one \<open>char\<close> per code unit; the model covers the
    strings whose code units are below 256. A value that is either a string or
    \<^verbatim>\<open>undefined\<close>/\<^verbatim>\<open>null\<close> is a \<open>string option\<close>, \<open>None\<close> being \<^verbatim>\<open>undefined\<close>
    (what \<^verbatim>\<open>track.key_info?.key\<close> yields for a track without key information).
  \<^item> An object literal is a record; a property that may be absent or \<^verbatim>\<open>undefined\<close>
    is an option.
  \<^item> The engine's only state is the table \<^verbatim>\<open>circleOfFifths\<close>, filled by the
    constructor and never written again; it is a constant association list, in the
    insertion order of the object literal (the order \<^verbatim>\<open>Object.entries\<close> yields).
\<close>

subsection \<open>Strings\<close>

text \<open>
  \<^verbatim>\<open>String.prototype.trim\<close> and the regular expression class \<^verbatim>\<open>\s\<close> use the same set
  of code units: white space and line terminators. Below 256 these are TAB, LF, VT, FF,
  CR, SPACE and NO-BREAK SPACE.
\<close>

definition is_space :: "char \<Rightarrow> bool" where
  "is_space c \<longleftrightarrow> of_char c \<in> {9, 10, 11, 12, 13, 32, 160 :: nat}"

definition trim_start :: "string \<Rightarrow> string" where
  "trim_start s = dropWhile is_space s"

definition trim :: "string \<Rightarrow> string" where
  "trim s = rev (dropWhile is_space (rev (dropWhile is_space s)))"

text \<open>
  \<^verbatim>\<open>toLowerCase\<close> and \<^verbatim>\<open>toUpperCase\<close> on the ASCII letters. They are applied only to
  text that the key pattern has matched against ASCII letters. Without the \<^verbatim>\<open>u\<close> flag a
  case-insensitive pattern compares the upper-case forms of the code units, and no code
  unit from 128 on is taken to an ASCII letter.
\<close>

definition toLowerCase_char :: "char \<Rightarrow> char" where
  "toLowerCase_char c =
     (let n = of_char c :: nat in if 65 \<le> n \<and> n \<le> 90 then char_of (n + 32) else c)"

definition toUpperCase_char :: "char \<Rightarrow> char" where
  "toUpperCase_char c =
     (let n = of_char c :: nat in if 97 \<le> n \<and> n \<le> 122 then char_of (n - 32) else c)"

definition toLowerCase :: "string \<Rightarrow> string" where
  "toLowerCase s = map toLowerCase_char s"

definition toUpperCase :: "string \<Rightarrow> string" where
  "toUpperCase s = map toUpperCase_char s"

definition endsWith :: "string \<Rightarrow> string \<Rightarrow> bool" where
  "endsWith s suffix \<longleftrightarrow> length suffix \<le> length s \<and> drop (length s - length suffix) s = suffix"

subsection \<open>The circle of fifths\<close>

definition circleOfFifths :: "(string \<times> nat) list" where
  "circleOfFifths =
     [(''C'', 0), (''G'', 1), (''D'', 2), (''A'', 3), (''E'', 4), (''B'', 5),
      (''F#'', 6), (''Gb'', 6), (''C#'', 7), (''Db'', 7), (''Ab'', 8), (''Eb'', 9),
      (''Bb'', 10), (''F'', 11),
      (''Am'', 0), (''Em'', 1), (''Bm'', 2), (''F#m'', 3), (''C#m'', 4), (''G#m'', 5),
      (''D#m'', 6), (''Ebm'', 6), (''A#m'', 7), (''Bbm'', 7), (''Fm'', 8), (''Cm'', 9),
      (''Gm'', 10), (''Dm'', 11)]"

subsection \<open>parseKey\<close>

text \<open>
  The key pattern is \<^verbatim>\<open>/^([A-G][#b]?)\s*(major|minor|maj|min|m)?$/i\<close>. The flag
  \<^verbatim>\<open>i\<close> applies to the whole pattern: the class \<^verbatim>\<open>[A-G]\<close> also matches \<^verbatim>\<open>a\<close> to
  \<^verbatim>\<open>g\<close>, and the class \<^verbatim>\<open>[#b]\<close> also matches \<^verbatim>\<open>B\<close>.

  \<open>match_keyPattern\<close> returns \<open>None\<close> where \<^verbatim>\<open>String.prototype.match\<close> returns
  \<^verbatim>\<open>null\<close>, and otherwise the two capture groups; the second group is \<open>None\<close> when it
  did not take part in the match (\<^verbatim>\<open>undefined\<close>). The pattern is anchored on both
  sides and no alternative of the second group begins with a character of \<^verbatim>\<open>[#b]\<close> or
  of \<^verbatim>\<open>\s\<close>, so the greedy choices are the only ones that can succeed: the second
  code unit belongs to the first group whenever it is in \<^verbatim>\<open>[#b]\<close>, \<^verbatim>\<open>\s*\<close> takes all
  the white space that follows, and the second group is the whole rest.
\<close>

definition is_note_letter :: "char \<Rightarrow> bool" where
  "is_note_letter c \<longleftrightarrow> toUpperCase_char c \<in> set ''ABCDEFG''"

definition is_accidental :: "char \<Rightarrow> bool" where
  "is_accidental c \<longleftrightarrow> toUpperCase_char c \<in> {CHR ''#'', CHR ''B''}"

definition is_mode_token :: "string \<Rightarrow> bool" where
  "is_mode_token s \<longleftrightarrow>
     toUpperCase s \<in> {''MAJOR'', ''MINOR'', ''MAJ'', ''MIN'', ''M''}"

fun match_keyPattern :: "string \<Rightarrow> (string \<times> string option) option" where
  "match_keyPattern [] = None"
| "match_keyPattern (c # cs) =
     (if \<not> is_note_letter c then None
      else
        let (note, rest) =
              (case cs of
                 a # cs' \<Rightarrow> if is_accidental a then ([c, a], cs') else ([c], cs)
               | [] \<Rightarrow> ([c], []));
            rest' = dropWhile is_space rest
        in if rest' = [] then Some (note, None)
           else if is_mode_token rest' then Some (note, Some rest')
           else None)"

record parsed_key =
  key :: "string option"
  note_name :: "string option"
  mode :: "string option"
  isValid :: bool
  circlePosition :: "nat option"

text \<open>
  The record is the object \<^verbatim>\<open>parseKey\<close> returns; \<open>note_name\<close> is its property
  \<^verbatim>\<open>note\<close>. The invalid result is \<^verbatim>\<open>{ key: null, mode: null, isValid: false }\<close>, whose
  properties \<^verbatim>\<open>note\<close> and \<^verbatim>\<open>circlePosition\<close> are absent. \<open>circlePosition\<close> is
  \<open>None\<close> also when the table has no entry for the normalised key, where the property
  read yields \<^verbatim>\<open>undefined\<close>.
\<close>

definition invalid_key :: parsed_key where
  "invalid_key =
     \<lparr>key = None, note_name = None, mode = None, isValid = False, circlePosition = None\<rparr>"

definition parseKey :: "string option \<Rightarrow> parsed_key" where
  "parseKey keyString =
     (case keyString of
        None \<Rightarrow> invalid_key
      | Some ks \<Rightarrow>
          if ks = [] \<or> ks = ''Unknown'' then invalid_key
          else
            let normalized = trim ks in
            (case match_keyPattern normalized of
               None \<Rightarrow> invalid_key
             | Some (note0, mode0) \<Rightarrow>
                 let (note, mode1) =
                       (case mode0 of
                          None \<Rightarrow>
                            (if endsWith note0 ''m'' then butlast note0 else note0,
                             if endsWith note0 ''m'' then ''minor'' else ''major'')
                        | Some m \<Rightarrow> (note0, m));
                     mode2 = toLowerCase mode1;
                     mode3 = (if mode2 = ''maj'' then ''major'' else mode2);
                     mode4 = (if mode3 = ''min'' \<or> mode3 = ''m'' then ''minor'' else mode3);
                     normalizedKey = (if mode4 = ''minor'' then note @ ''m'' else note)
                 in \<lparr>key = Some normalizedKey, note_name = Some note, mode = Some mode4,
                     isValid = True, circlePosition = map_of circleOfFifths normalizedKey\<rparr>))"

subsection \<open>calculateKeyCompatibility\<close>

record compat =
  compatibility :: string
  score :: int
  reason :: string

definition relativePairs :: "(string \<times> string) list" where
  "relativePairs =
     [(''C'', ''Am''), (''G'', ''Em''), (''D'', ''Bm''), (''A'', ''F#m''), (''E'', ''C#m''),
      (''B'', ''G#m''), (''F#'', ''D#m''), (''Gb'', ''Ebm''), (''C#'', ''A#m''),
      (''Db'', ''Bbm''), (''Ab'', ''Fm''), (''Eb'', ''Cm''), (''Bb'', ''Gm''), (''F'', ''Dm'')]"

definition areRelativeKeys :: "parsed_key \<Rightarrow> parsed_key \<Rightarrow> bool" where
  "areRelativeKeys parsed1 parsed2 \<longleftrightarrow>
     list_ex (\<lambda>(major, minor).
         (key parsed1 = Some major \<and> key parsed2 = Some minor) \<or>
         (key parsed1 = Some minor \<and> key parsed2 = Some major))
       relativePairs"

definition areParallelKeys :: "parsed_key \<Rightarrow> parsed_key \<Rightarrow> bool" where
  "areParallelKeys parsed1 parsed2 \<longleftrightarrow>
     note_name parsed1 = note_name parsed2 \<and> mode parsed1 \<noteq> mode parsed2"

definition calculateCircleDistance :: "nat \<Rightarrow> nat \<Rightarrow> int" where
  "calculateCircleDistance pos1 pos2 =
     (let distance = \<bar>int pos1 - int pos2\<bar> in min distance (12 - distance))"

definition poor_key :: compat where
  "poor_key =
     \<lparr>compatibility = ''poor'', score = 20, reason = ''Keys are not harmonically related''\<rparr>"

definition calculateKeyCompatibility :: "string option \<Rightarrow> string option \<Rightarrow> compat" where
  "calculateKeyCompatibility key1 key2 =
     (let parsed1 = parseKey key1; parsed2 = parseKey key2 in
      if \<not> isValid parsed1 \<or> \<not> isValid parsed2 then
        \<lparr>compatibility = ''unknown'', score = 0, reason = ''Invalid key data''\<rparr>
      else if key parsed1 = key parsed2 then
        \<lparr>compatibility = ''perfect'', score = 100, reason = ''Same key''\<rparr>
      else if areRelativeKeys parsed1 parsed2 then
        \<lparr>compatibility = ''excellent'', score = 95, reason = ''Relative major/minor keys''\<rparr>
      else if areParallelKeys parsed1 parsed2 then
        \<lparr>compatibility = ''very-good'', score = 85, reason = ''Parallel major/minor keys''\<rparr>
      else
        (case (circlePosition parsed1, circlePosition parsed2) of
           (Some pos1, Some pos2) \<Rightarrow>
             (let distance = calculateCircleDistance pos1 pos2 in
              if distance = 1 then
                \<lparr>compatibility = ''good'', score = 80,
                 reason = ''Adjacent keys in circle of fifths''\<rparr>
              else if distance = 2 then
                \<lparr>compatibility = ''fair'', score = 60,
                 reason = ''Two steps apart in circle of fifths''\<rparr>
              else if distance = 3 then
                \<lparr>compatibility = ''acceptable'', score = 40,
                 reason = ''Three steps apart in circle of fifths''\<rparr>
              else poor_key)
         | _ \<Rightarrow> poor_key))"

subsection \<open>Numbers\<close>

text \<open>
  A JavaScript number is an IEEE 754 binary64 value: \<^verbatim>\<open>NaN\<close>, one of the two
  infinities, one of the two zeros, or a finite value, which is a rational number. In
  \<open>number\<close> the value \<open>Finite 0\<close> is the positive zero and \<open>NegZero\<close> the negative one.

  The function \<open>fl\<close> rounds a rational to the nearest value with a significand of 53
  bits, ties to the even significand, with no bound on the exponent. \<open>binary64\<close> is the
  number value of a real: below \<open>2 ^ -1022\<close> in magnitude the values of binary64 are the
  multiples of \<open>2 ^ -1074\<close>, elsewhere it is \<open>fl\<close>, and a result of magnitude
  \<open>2 ^ 1024\<close> or more is an infinity. The operations on numbers follow the cases of
  ECMAScript's \<^verbatim>\<open>Number::add\<close>, \<^verbatim>\<open>Number::divide\<close>, \<^verbatim>\<open>Number::lessThan\<close> and
  \<^verbatim>\<open>Number::equal\<close>.

  The two scores that \<open>calculateOverallCompatibility\<close> weighs are integers between 0
  and 100, and their products and sum are far from the ends of the exponent range, so
  \<open>weightedScore\<close> below is written with \<open>fl\<close> itself.
\<close>

definition pow2 :: "int \<Rightarrow> rat" where
  "pow2 e = (if 0 \<le> e then 2 ^ nat e else 1 / 2 ^ nat (- e))"

definition ilog2 :: "rat \<Rightarrow> int" where
  \<comment> \<open>for \<open>0 < x\<close>: the exponent \<open>e\<close> with \<open>2 ^ e \<le> x < 2 ^ (e + 1)\<close>\<close>
  "ilog2 x = (if 1 \<le> x then bitlen \<lfloor>x\<rfloor> - 1 else - bitlen (\<lceil>1 / x\<rceil> - 1))"

definition round_ties_even :: "rat \<Rightarrow> int" where
  "round_ties_even x =
     (let f = \<lfloor>x\<rfloor>; r = x - of_int f in
      if r < 1 / 2 then f else if 1 / 2 < r then f + 1 else if even f then f else f + 1)"

definition fl :: "rat \<Rightarrow> rat" where
  "fl x =
     (if x = 0 then 0
      else let u = pow2 (ilog2 \<bar>x\<bar> - 52) in of_int (round_ties_even (x / u)) * u)"

definition Math_round :: "rat \<Rightarrow> int" where
  \<comment> \<open>\<^verbatim>\<open>Math.round\<close>: the nearest integer, a tie going up\<close>
  "Math_round x = \<lfloor>x + 1 / 2\<rfloor>"

datatype number = NaN | Infinity | NegInfinity | NegZero | Finite rat

definition binary64 :: "rat \<Rightarrow> number" where
  "binary64 x =
     (let y = (if \<bar>x\<bar> < pow2 (- 1022)
               then of_int (round_ties_even (x / pow2 (- 1074))) * pow2 (- 1074)
               else fl x)
      in if pow2 1024 \<le> y then Infinity
         else if y \<le> - pow2 1024 then NegInfinity
         else if y = 0 \<and> x < 0 then NegZero
         else Finite y)"

definition isNaN :: "number \<Rightarrow> bool" where
  "isNaN x \<longleftrightarrow> x = NaN"

definition is_infinite :: "number \<Rightarrow> bool" where
  "is_infinite x \<longleftrightarrow> x = Infinity \<or> x = NegInfinity"

definition is_zero :: "number \<Rightarrow> bool" where
  "is_zero x \<longleftrightarrow> x = Finite 0 \<or> x = NegZero"

fun negative :: "number \<Rightarrow> bool" where
  "negative NaN = False"
| "negative Infinity = False"
| "negative NegInfinity = True"
| "negative NegZero = True"
| "negative (Finite r) = (r < 0)"

fun real_value :: "number \<Rightarrow> rat" where
  \<comment> \<open>the mathematical value of a finite number\<close>
  "real_value (Finite r) = r"
| "real_value _ = 0"

fun unaryMinus :: "number \<Rightarrow> number" where
  "unaryMinus NaN = NaN"
| "unaryMinus Infinity = NegInfinity"
| "unaryMinus NegInfinity = Infinity"
| "unaryMinus NegZero = Finite 0"
| "unaryMinus (Finite r) = (if r = 0 then NegZero else Finite (- r))"

definition number_add :: "number \<Rightarrow> number \<Rightarrow> number" where
  "number_add x y =
     (if isNaN x \<or> isNaN y then NaN
      else if is_infinite x \<and> is_infinite y then (if x = y then x else NaN)
      else if is_infinite x then x
      else if is_infinite y then y
      else if x = NegZero \<and> y = NegZero then NegZero
      else binary64 (real_value x + real_value y))"

definition number_subtract :: "number \<Rightarrow> number \<Rightarrow> number" where
  "number_subtract x y = number_add x (unaryMinus y)"

definition number_divide :: "number \<Rightarrow> number \<Rightarrow> number" where
  "number_divide x y =
     (if isNaN x \<or> isNaN y then NaN
      else if is_infinite x \<and> is_infinite y then NaN
      else if is_zero x \<and> is_zero y then NaN
      else if is_infinite x \<or> is_zero y then
        (if negative x = negative y then Infinity else NegInfinity)
      else if is_zero x \<or> is_infinite y then
        (if negative x = negative y then Finite 0 else NegZero)
      else binary64 (real_value x / real_value y))"

definition number_lessThan :: "number \<Rightarrow> number \<Rightarrow> bool" where
  \<comment> \<open>\<^verbatim>\<open>x < y\<close>, false when an operand is \<^verbatim>\<open>NaN\<close>\<close>
  "number_lessThan x y \<longleftrightarrow>
     (if isNaN x \<or> isNaN y then False
      else if x = y then False
      else if is_zero x \<and> is_zero y then False
      else if x = Infinity then False
      else if y = Infinity then True
      else if y = NegInfinity then False
      else if x = NegInfinity then True
      else real_value x < real_value y)"

definition number_lessEq :: "number \<Rightarrow> number \<Rightarrow> bool" where
  \<comment> \<open>\<^verbatim>\<open>x <= y\<close>: neither operand is \<^verbatim>\<open>NaN\<close> and \<^verbatim>\<open>y < x\<close> is false\<close>
  "number_lessEq x y \<longleftrightarrow> \<not> isNaN x \<and> \<not> isNaN y \<and> \<not> number_lessThan y x"

definition number_equal :: "number \<Rightarrow> number \<Rightarrow> bool" where
  \<comment> \<open>\<^verbatim>\<open>x === y\<close> on numbers\<close>
  "number_equal x y \<longleftrightarrow>
     (if isNaN x \<or> isNaN y then False
      else if x = y then True
      else is_zero x \<and> is_zero y)"

fun Math_abs :: "number \<Rightarrow> number" where
  "Math_abs NaN = NaN"
| "Math_abs Infinity = Infinity"
| "Math_abs NegInfinity = Infinity"
| "Math_abs NegZero = Finite 0"
| "Math_abs (Finite r) = Finite \<bar>r\<bar>"

definition within_tenth :: "number \<Rightarrow> number \<Rightarrow> bool" where
  \<comment> \<open>\<^verbatim>\<open>Math.abs(ratio - c) < 0.1\<close>\<close>
  "within_tenth ratio c \<longleftrightarrow>
     number_lessThan (Math_abs (number_subtract ratio c)) (binary64 (1 / 10))"

subsection \<open>parseInt and the text of a number\<close>

text \<open>
  \<^verbatim>\<open>parseInt(string)\<close> without a radix: the argument is converted to a string
  (\<^verbatim>\<open>undefined\<close> to the text \<^verbatim>\<open>undefined\<close>), leading white space is dropped, a sign is
  read, a prefix \<^verbatim>\<open>0x\<close> or \<^verbatim>\<open>0X\<close> selects radix 16 and radix 10 is used otherwise,
  and the longest run of digits of that radix is the integer read. With no digit the
  result is \<^verbatim>\<open>NaN\<close>; otherwise it is the number value of the signed integer, which is
  the integer itself up to \<open>2 ^ 53\<close> in magnitude, its rounding to binary64 above, and
  an infinity from \<open>2 ^ 1024\<close> on. (ECMAScript lets an engine read the decimal digits
  after the twentieth as zeros; the engines in use round the integer that is written.)
\<close>

definition digit_value :: "char \<Rightarrow> nat" where
  "digit_value c =
     (let n = of_char c :: nat in
      if 48 \<le> n \<and> n \<le> 57 then n - 48
      else if 97 \<le> n \<and> n \<le> 122 then n - 87
      else if 65 \<le> n \<and> n \<le> 90 then n - 55
      else 36)"

definition is_digit :: "nat \<Rightarrow> char \<Rightarrow> bool" where
  "is_digit R c \<longleftrightarrow> digit_value c < R"

definition parseInt :: "string option \<Rightarrow> number" where
  "parseInt v =
     (let inputString = (case v of None \<Rightarrow> ''undefined'' | Some str \<Rightarrow> str);
          S = trim_start inputString;
          sign = (if take 1 S = ''-'' then - 1 else 1 :: int);
          S1 = (if take 1 S = ''+'' \<or> take 1 S = ''-'' then drop 1 S else S);
          (R, S2) = (if take 2 S1 = ''0x'' \<or> take 2 S1 = ''0X'' then (16, drop 2 S1)
                     else (10, S1));
          Z = takeWhile (is_digit R) S2;
          mathInt = foldl (\<lambda>n c. n * int R + int (digit_value c)) 0 Z
      in if Z = [] then NaN
         else if mathInt = 0 then (if sign = - 1 then NegZero else Finite 0)
         else binary64 (of_int (sign * mathInt)))"

text \<open>
  The text a template literal produces for a number, \<^verbatim>\<open>Number::toString\<close> with radix
  10. \<open>number_text\<close> writes the decimal digits of a natural number. For a finite number
  \<open>x\<close> above zero the text is made from the integers \<open>n\<close>, \<open>k\<close> and \<open>s\<close> such that \<open>s\<close> has
  \<open>k\<close> decimal digits, \<open>s * 10 ^ (n - k)\<close> rounds to \<open>x\<close>, and \<open>k\<close> is as small as
  possible; where several \<open>s\<close> qualify ECMAScript recommends, and the engines take,
  the one for which \<open>s * 10 ^ (n - k)\<close> is nearest to \<open>x\<close>, the even one at a tie. At
  \<open>k\<close> digits the two decimals that enclose \<open>x\<close> are the only ones to try, and 17 digits
  tell any two values of binary64 apart, which is where the search ends.
\<close>

function number_text :: "int \<Rightarrow> string" where
  "number_text n =
     (if n < 10 then [char_of (48 + nat n)]
      else number_text (n div 10) @ [char_of (48 + nat (n mod 10))])"
  by pat_completeness auto
termination
  by (relation "measure nat") auto

declare number_text.simps [simp del]

definition pow10 :: "int \<Rightarrow> rat" where
  "pow10 e = (if 0 \<le> e then 10 ^ nat e else 1 / 10 ^ nat (- e))"

definition decimal_exponent :: "rat \<Rightarrow> int" where
  \<comment> \<open>for \<open>0 < x\<close>: the \<open>n\<close> with \<open>10 ^ (n - 1) \<le> x < 10 ^ n\<close>\<close>
  "decimal_exponent x =
     (if 1 \<le> x then int (length (number_text \<lfloor>x\<rfloor>))
      else 1 - int (length (number_text (\<lceil>1 / x\<rceil> - 1))))"

definition rounds_to :: "rat \<Rightarrow> int \<Rightarrow> int \<Rightarrow> bool" where
  "rounds_to x e s \<longleftrightarrow> binary64 (of_int s * pow10 e) = Finite x"

definition digits_at :: "rat \<Rightarrow> int \<Rightarrow> nat \<Rightarrow> int option" where
  \<comment> \<open>the \<open>s\<close> of \<open>k\<close> digits for which \<open>s * 10 ^ (n - k)\<close> rounds to \<open>x\<close>, if there is one\<close>
  "digits_at x n k =
     (let e = n - int k;
          lo = \<lfloor>x / pow10 e\<rfloor>;
          hi = lo + 1;
          below = x - of_int lo * pow10 e;
          above = of_int hi * pow10 e - x
      in if rounds_to x e lo \<and> rounds_to x e hi then
           Some (if below < above then lo else if above < below then hi
                 else if even lo then lo else hi)
         else if rounds_to x e lo then Some lo
         else if rounds_to x e hi then Some hi
         else None)"

function shortest_digits :: "rat \<Rightarrow> int \<Rightarrow> nat \<Rightarrow> nat \<times> int" where
  "shortest_digits x n k =
     (case digits_at x n k of
        Some s \<Rightarrow> (k, s)
      | None \<Rightarrow>
          if 17 \<le> k then (k, round_ties_even (x / pow10 (n - int k)))
          else shortest_digits x n (Suc k))"
  by pat_completeness auto
termination
  by (relation "measure (\<lambda>(x, n, k). 17 - k)") auto

declare shortest_digits.simps [simp del]

definition positive_text :: "rat \<Rightarrow> string" where
  "positive_text x =
     (let n0 = decimal_exponent x;
          (k0, s0) = shortest_digits x n0 1;
          (n, k, s) = (if s0 = 10 ^ k0 then (n0 + 1, 1, 1) else (n0, k0, s0));
          digits = number_text s;
          e = n - 1
      in if int k \<le> n \<and> n \<le> 21 then digits @ replicate (nat (n - int k)) (CHR ''0'')
         else if 0 < n \<and> n \<le> 21 then take (nat n) digits @ ''.'' @ drop (nat n) digits
         else if - 6 < n \<and> n \<le> 0 then ''0.'' @ replicate (nat (- n)) (CHR ''0'') @ digits
         else
           (if k = 1 then digits else take 1 digits @ ''.'' @ drop 1 digits) @ ''e'' @
           (if e < 0 then ''-'' else ''+'') @ number_text \<bar>e\<bar>)"

definition number_toString :: "number \<Rightarrow> string" where
  "number_toString x =
     (case x of
        NaN \<Rightarrow> ''NaN''
      | Infinity \<Rightarrow> ''Infinity''
      | NegInfinity \<Rightarrow> ''-Infinity''
      | NegZero \<Rightarrow> ''0''
      | Finite r \<Rightarrow>
          if r = 0 then ''0'' else if r < 0 then ''-'' @ positive_text (- r)
          else positive_text r)"

subsection \<open>calculateBpmCompatibility\<close>

definition calculateBpmCompatibility :: "string option \<Rightarrow> string option \<Rightarrow> compat" where
  "calculateBpmCompatibility bpm1 bpm2 =
     (let num1 = parseInt bpm1; num2 = parseInt bpm2 in
      if isNaN num1 \<or> isNaN num2 then
        \<lparr>compatibility = ''unknown'', score = 0, reason = ''Invalid BPM data''\<rparr>
      else
        let difference = Math_abs (number_subtract num1 num2) in
        if number_equal difference (Finite 0) then
          \<lparr>compatibility = ''perfect'', score = 100, reason = ''Exact BPM match''\<rparr>
        else
          let ratio1 = number_divide num1 num2; ratio2 = number_divide num2 num1 in
          if within_tenth ratio1 (Finite 2) \<or> within_tenth ratio2 (Finite 2) then
            \<lparr>compatibility = ''excellent'', score = 90,
             reason = ''Half/double BPM relationship''\<rparr>
          else if within_tenth ratio1 (Finite (3 / 2)) \<or> within_tenth ratio2 (Finite (3 / 2))
          then
            \<lparr>compatibility = ''good'', score = 75, reason = ''3/2 BPM relationship''\<rparr>
          else if number_lessEq difference (Finite 5) then
            \<lparr>compatibility = ''excellent'', score = 95,
             reason = ''Within 5 BPM ('' @ number_toString difference @ '' BPM difference)''\<rparr>
          else if number_lessEq difference (Finite 10) then
            \<lparr>compatibility = ''good'', score = 80,
             reason = ''Within 10 BPM ('' @ number_toString difference @ '' BPM difference)''\<rparr>
          else if number_lessEq difference (Finite 20) then
            \<lparr>compatibility = ''fair'', score = 60,
             reason = ''Within 20 BPM ('' @ number_toString difference @ '' BPM difference)''\<rparr>
          else if number_lessEq difference (Finite 40) then
            \<lparr>compatibility = ''acceptable'', score = 40,
             reason = number_toString difference @ '' BPM difference''\<rparr>
          else
            \<lparr>compatibility = ''poor'', score = 20,
             reason = ''Large BPM difference ('' @ number_toString difference @ '' BPM)''\<rparr>)"

subsection \<open>calculateOverallCompatibility\<close>

text \<open>
  The texts of \<^verbatim>\<open>getCompatibilityDescription\<close> and \<^verbatim>\<open>getMixingAdvice\<close> each begin with
  an emoji and a space; the emoji is not a code unit below 256, and the model keeps the
  text after it. \<^verbatim>\<open>getCompatibilityDescription\<close> reads a property of an object literal;
  the engine calls it with one of the six tier labels, and the model does not cover an
  argument that names a property the object inherits.
\<close>

definition getCompatibilityDescription :: "string \<Rightarrow> string" where
  "getCompatibilityDescription c =
     (case map_of
        [(''excellent'', ''Perfect for mixing - seamless transition''),
         (''very-good'', ''Great compatibility - smooth mixing''),
         (''good'', ''Good match - will mix well together''),
         (''fair'', ''Decent compatibility - requires some skill''),
         (''acceptable'', ''Challenging but possible to mix''),
         (''poor'', ''Difficult to mix harmonically'')] c of
        Some d \<Rightarrow> d
      | None \<Rightarrow> ''Unknown compatibility'')"

definition includes_text :: "string \<Rightarrow> string \<Rightarrow> bool" where
  \<comment> \<open>\<^verbatim>\<open>String.prototype.includes\<close>\<close>
  "includes_text s sub \<longleftrightarrow>
     list_ex (\<lambda>i. take (length sub) (drop i s) = sub) [0 ..< Suc (length s)]"

definition getMixingAdvice :: "compat \<Rightarrow> compat \<Rightarrow> string list" where
  "getMixingAdvice keyCompat bpmCompat =
     (let advice = [];
          advice =
            advice @
            [if 80 \<le> score keyCompat then ''Keys mix naturally - no pitch adjustment needed''
             else if 60 \<le> score keyCompat then
               ''Keys are related - consider key-lock or harmonic mixing''
             else ''Use camelot wheel or key-lock for best results''];
          advice =
            advice @
            [if 90 \<le> score bpmCompat then ''BPMs are perfectly matched for mixing''
             else if 70 \<le> score bpmCompat then
               ''BPMs are close - minimal tempo adjustment needed''
             else if includes_text (reason bpmCompat) ''double'' then
               ''Half/double BPM - perfect for creative transitions''
             else ''Use tempo sync or beatmatching for smooth transition'']
      in advice)"

record track_data =
  track_key :: "string option"
  track_bpm :: "string option"

record overall_compat =
  overall_compatibility :: string
  overall_score :: int
  description :: string

record verdict =
  overall :: overall_compat
  key_compat :: compat
  bpm_compat :: compat
  mixing_advice :: "string list"

text \<open>
  \<open>track_data\<close> is what \<^verbatim>\<open>calculateOverallCompatibility\<close> reads of a track, its
  properties \<^verbatim>\<open>key\<close> and \<^verbatim>\<open>bpm\<close>. In \<open>verdict\<close> the fields \<open>key_compat\<close> and
  \<open>bpm_compat\<close> are the properties \<^verbatim>\<open>key\<close> and \<^verbatim>\<open>bpm\<close> of the returned object, and in
  \<open>overall_compat\<close> the fields \<open>overall_compatibility\<close> and \<open>overall_score\<close> are the
  properties \<^verbatim>\<open>compatibility\<close> and \<^verbatim>\<open>score\<close> of its property \<^verbatim>\<open>overall\<close>.
\<close>

definition weightedScore :: "int \<Rightarrow> int \<Rightarrow> rat" where
  \<comment> \<open>\<^verbatim>\<open>keyCompatibility.score * 0.6 + bpmCompatibility.score * 0.4\<close>\<close>
  "weightedScore keyScore bpmScore =
     fl (fl (of_int keyScore * fl (6 / 10)) + fl (of_int bpmScore * fl (4 / 10)))"

definition tierOf :: "rat \<Rightarrow> string" where
  "tierOf overallScore =
     (if 90 \<le> overallScore then ''excellent''
      else if 75 \<le> overallScore then ''very-good''
      else if 60 \<le> overallScore then ''good''
      else if 40 \<le> overallScore then ''fair''
      else if 25 \<le> overallScore then ''acceptable''
      else ''poor'')"

definition calculateOverallCompatibility :: "track_data \<Rightarrow> track_data \<Rightarrow> verdict" where
  "calculateOverallCompatibility track1 track2 =
     (let keyCompatibility = calculateKeyCompatibility (track_key track1) (track_key track2);
          bpmCompatibility = calculateBpmCompatibility (track_bpm track1) (track_bpm track2);
          overallScore = weightedScore (score keyCompatibility) (score bpmCompatibility);
          overallCompatibility = tierOf overallScore
      in \<lparr>overall =
            \<lparr>overall_compatibility = overallCompatibility,
             overall_score = Math_round overallScore,
             description = getCompatibilityDescription overallCompatibility\<rparr>,
          key_compat = keyCompatibility,
          bpm_compat = bpmCompatibility,
          mixing_advice = getMixingAdvice keyCompatibility bpmCompatibility\<rparr>)"

subsection \<open>findCompatibleTracks\<close>

text \<open>
  A track is an object of which the engine reads \<^verbatim>\<open>key_info?.key\<close> and
  \<^verbatim>\<open>key_info?.bpm\<close> only; \<open>other_fields\<close> stands for all its other properties. The
  object \<^verbatim>\<open>{ ...track, compatibility_info: compatibility }\<close> pushed for a candidate is
  a \<open>compatible_track\<close>: the candidate's properties, in \<open>track\<close>, and the verdict.
  The parameter \<^verbatim>\<open>minScore\<close> is a number; a caller that leaves it out gets the
  default 40, which in the model is the argument 40.
\<close>

record key_info =
  info_key :: "string option"
  info_bpm :: "string option"

record 'a track =
  track_key_info :: "key_info option"
  other_fields :: 'a

record 'a compatible_track =
  track :: "'a track"
  compatibility_info :: verdict

definition track_data_of :: "'a track \<Rightarrow> track_data" where
  \<comment> \<open>\<^verbatim>\<open>{ key: track.key_info?.key, bpm: track.key_info?.bpm }\<close>\<close>
  "track_data_of t =
     \<lparr>track_key = Option.bind (track_key_info t) info_key,
      track_bpm = Option.bind (track_key_info t) info_bpm\<rparr>"

text \<open>
  \<^verbatim>\<open>Array.prototype.sort\<close> with a comparison function: the result is a permutation of
  the array, ordered by the function, and elements that compare equal keep their
  order (the sort is stable since ECMAScript 2019). \<open>array_sort\<close> is such a sort, by
  insertion from the right.
\<close>

fun sort_insert :: "('a \<Rightarrow> 'a \<Rightarrow> int) \<Rightarrow> 'a \<Rightarrow> 'a list \<Rightarrow> 'a list" where
  "sort_insert cmp x [] = [x]"
| "sort_insert cmp x (y # ys) =
     (if cmp x y \<le> 0 then x # y # ys else y # sort_insert cmp x ys)"

fun array_sort :: "('a \<Rightarrow> 'a \<Rightarrow> int) \<Rightarrow> 'a list \<Rightarrow> 'a list" where
  "array_sort cmp [] = []"
| "array_sort cmp (x # xs) = sort_insert cmp x (array_sort cmp xs)"

definition track_score :: "'a compatible_track \<Rightarrow> int" where
  \<comment> \<open>\<^verbatim>\<open>compatibility_info.overall.score\<close>\<close>
  "track_score t = overall_score (overall (compatibility_info t))"

fun collectCompatible ::
  "'a track \<Rightarrow> rat \<Rightarrow> 'a track list \<Rightarrow> 'a compatible_track list \<Rightarrow> 'a compatible_track list"
where
  "collectCompatible referenceTrack minScore [] compatibleTracks = compatibleTracks"
| "collectCompatible referenceTrack minScore (t # candidateTracks) compatibleTracks =
     (let compatibility =
            calculateOverallCompatibility (track_data_of referenceTrack) (track_data_of t)
      in collectCompatible referenceTrack minScore candidateTracks
           (if minScore \<le> of_int (overall_score (overall compatibility))
            then compatibleTracks @ [\<lparr>track = t, compatibility_info = compatibility\<rparr>]
            else compatibleTracks))"

definition findCompatibleTracks ::
  "'a track \<Rightarrow> 'a track list \<Rightarrow> rat \<Rightarrow> 'a compatible_track list"
where
  "findCompatibleTracks referenceTrack candidateTracks minScore =
     array_sort (\<lambda>a b. track_score b - track_score a)
       (collectCompatible referenceTrack minScore candidateTracks [])"

subsection \<open>generateCompatibleSearchSuggestions\<close>

record suggestion =
  suggested_key :: string
  suggestion_reason :: string
  suggestion_score :: int

text \<open>
  \<open>suggested_key\<close>, \<open>suggestion_reason\<close> and \<open>suggestion_score\<close> are the properties
  \<^verbatim>\<open>key\<close>, \<^verbatim>\<open>reason\<close> and \<^verbatim>\<open>score\<close> of a suggestion. When the reference key has no
  circle position, \<^verbatim>\<open>parsed.circlePosition + 1\<close> is \<^verbatim>\<open>NaN\<close> and so is each element of
  \<^verbatim>\<open>adjacentPositions\<close>; \<open>None\<close> stands for it, and no position of the table is equal
  to it.
\<close>

definition generateCompatibleSearchSuggestions ::
  "string option \<Rightarrow> string option \<Rightarrow> suggestion list"
where
  "generateCompatibleSearchSuggestions referenceKey referenceBpm =
     (let parsed = parseKey referenceKey in
      if \<not> isValid parsed then []
      else
        let suggestions = [];
            suggestions =
              foldl (\<lambda>suggestions (k, position).
                  if Some position = circlePosition parsed \<and> Some k \<noteq> key parsed
                  then suggestions @
                    [\<lparr>suggested_key = k, suggestion_reason = ''Relative major/minor'',
                      suggestion_score = 95\<rparr>]
                  else suggestions)
                suggestions circleOfFifths;
            adjacentPositions =
              [map_option (\<lambda>p. (p + 1) mod 12) (circlePosition parsed),
               map_option (\<lambda>p. (p + 11) mod 12) (circlePosition parsed)];
            suggestions =
              foldl (\<lambda>suggestions (k, position).
                  if Some position \<in> set adjacentPositions
                  then suggestions @
                    [\<lparr>suggested_key = k, suggestion_reason = ''Adjacent in circle of fifths'',
                      suggestion_score = 80\<rparr>]
                  else suggestions)
                suggestions circleOfFifths
        in take 10 suggestions)"

subsection \<open>Notions used to state the properties\<close>

text \<open>
  The first capture group of the key pattern: a note letter, or a note letter and an
  accidental.
\<close>

definition note_shape :: "string \<Rightarrow> bool" where
  "note_shape n \<longleftrightarrow>
     (\<exists>c. is_note_letter c \<and> (n = [c] \<or> (\<exists>a. is_accidental a \<and> n = [c, a])))"

text \<open>The two forms of a valid result of \<open>parseKey\<close>, for a note \<open>n\<close>.\<close>

definition major_result :: "string \<Rightarrow> parsed_key" where
  "major_result n =
     \<lparr>key = Some n, note_name = Some n, mode = Some ''major'', isValid = True,
      circlePosition = map_of circleOfFifths n\<rparr>"

definition minor_result :: "string \<Rightarrow> parsed_key" where
  "minor_result n =
     \<lparr>key = Some (n @ ''m''), note_name = Some n, mode = Some ''minor'', isValid = True,
      circlePosition = map_of circleOfFifths (n @ ''m'')\<rparr>"

text \<open>
  The grammar of key strings in the words of the specification: an upper-case letter A
  to G, optionally a sharp sign \<open>#\<close> or a flat sign \<open>b\<close>, and then optionally white
  space and a mode token in any letter case, or a bare \<open>m\<close> (in either case) that
  follows without white space.
\<close>

definition specified_key_grammar :: "string \<Rightarrow> bool" where
  "specified_key_grammar s \<longleftrightarrow>
     (\<exists>c acc tail.
        s = c # acc @ tail \<and> c \<in> set ''ABCDEFG'' \<and> acc \<in> {[], ''#'', ''b''} \<and>
        (tail = [] \<or> tail = ''m'' \<or> tail = ''M'' \<or>
         (\<exists>ws tok. tail = ws @ tok \<and> ws \<noteq> [] \<and> list_all is_space ws \<and>
            is_mode_token tok)))"

text \<open>
  The same grammar read without regard to letter case, and with the white space before
  the mode token optional.
\<close>

definition relaxed_key_grammar :: "string \<Rightarrow> bool" where
  "relaxed_key_grammar s \<longleftrightarrow>
     (\<exists>c acc ws tok.
        s = c # acc @ ws @ tok \<and> toUpperCase_char c \<in> set ''ABCDEFG'' \<and>
        toUpperCase acc \<in> {[], ''#'', ''B''} \<and> list_all is_space ws \<and>
        (tok = [] \<or> is_mode_token tok))"

text \<open>The scores the two classifiers can return.\<close>

definition key_scores :: "int list" where
  "key_scores = [0, 100, 95, 85, 80, 60, 40, 20]"

definition bpm_scores :: "int list" where
  "bpm_scores = [0, 100, 90, 75, 95, 80, 60, 40, 20]"

text \<open>The tier of an integer overall score, in the words of the specification.\<close>

definition specified_tier :: "int \<Rightarrow> string" where
  "specified_tier n =
     (if 90 \<le> n then ''excellent''
      else if 75 \<le> n then ''very-good''
      else if 60 \<le> n then ''good''
      else if 40 \<le> n then ''fair''
      else if 25 \<le> n then ''acceptable''
      else ''poor'')"

section \<open>Properties\<close>

subsection \<open>Characters and the key pattern\<close>

lemma of_char_lt: "(of_char c :: nat) < 256"
  by (metis of_char_mod_256 mod_less_divisor zero_less_numeral)

lemma lower_upper_char: "toLowerCase_char (toUpperCase_char c) = toLowerCase_char c"
proof -
  let ?n = "of_char c :: nat"
  have lt: "?n < 256" by (rule of_char_lt)
  show ?thesis
  proof (cases "97 \<le> ?n \<and> ?n \<le> 122")
    case True
    then have "?n - 32 < 256" by arith
    then have "of_char (char_of (?n - 32) :: char) = ?n - 32" by (simp only: of_char_of mod_less)
    moreover have "char_of (?n - 32 + 32) = c" using True by simp
    moreover have "65 \<le> ?n - 32 \<and> ?n - 32 \<le> 90" using True by arith
    ultimately show ?thesis using True
      by (simp add: toLowerCase_char_def toUpperCase_char_def Let_def)
  next
    case False
    then have "toUpperCase_char c = c" by (auto simp: toUpperCase_char_def Let_def)
    then show ?thesis by simp
  qed
qed

lemma lower_upper: "toLowerCase (toUpperCase s) = toLowerCase s"
  by (simp add: toLowerCase_def toUpperCase_def lower_upper_char)

lemma lower_tokens:
  "toLowerCase ''MAJOR'' = ''major''" "toLowerCase ''MINOR'' = ''minor''"
  "toLowerCase ''MAJ'' = ''maj''" "toLowerCase ''MIN'' = ''min''" "toLowerCase ''M'' = ''m''"
  by code_simp+

lemma mode_token_lower:
  "is_mode_token t \<Longrightarrow> toLowerCase t \<in> {''major'', ''minor'', ''maj'', ''min'', ''m''}"
proof -
  assume "is_mode_token t"
  then have "toUpperCase t \<in> {''MAJOR'', ''MINOR'', ''MAJ'', ''MIN'', ''M''}"
    by (simp add: is_mode_token_def)
  then have "toLowerCase (toUpperCase t) \<in> toLowerCase ` {''MAJOR'', ''MINOR'', ''MAJ'', ''MIN'', ''M''}"
    by (rule imageI)
  then show ?thesis
    by (simp add: lower_upper lower_tokens)
qed


lemma match_keyPattern_SomeD:
  assumes "match_keyPattern s = Some (n, m)"
  shows "note_shape n" and "\<And>t. m = Some t \<Longrightarrow> is_mode_token t"
  using assms
  by (cases s; auto simp: note_shape_def Let_def split: if_splits list.splits prod.splits)+

lemma not_m_letter: "is_note_letter c \<Longrightarrow> c \<noteq> CHR ''m''"
  by (auto simp: is_note_letter_def toUpperCase_char_def char_of_eq_iff)

lemma not_m_accidental: "is_accidental c \<Longrightarrow> c \<noteq> CHR ''m''"
  by (auto simp: is_accidental_def toUpperCase_char_def char_of_eq_iff)

lemma note_shape_last: "note_shape n \<Longrightarrow> n \<noteq> [] \<and> last n \<noteq> CHR ''m''"
  by (auto simp: note_shape_def not_m_letter not_m_accidental)

lemma endsWith_m: "endsWith s ''m'' \<longleftrightarrow> s \<noteq> [] \<and> last s = CHR ''m''"
proof (cases s rule: rev_cases)
  case Nil
  then show ?thesis by (simp add: endsWith_def)
next
  case (snoc ys y)
  then show ?thesis by (auto simp: endsWith_def)
qed

lemma parseKey_valid_shape:
  assumes "isValid (parseKey k)"
  shows "\<exists>n. note_shape n \<and> (parseKey k = major_result n \<or> parseKey k = minor_result n)"
proof -
  from assms obtain s where k: "k = Some s"
    by (cases k) (auto simp: parseKey_def invalid_key_def)
  from assms k have s: "s \<noteq> []" "s \<noteq> ''Unknown''"
    by (auto simp: parseKey_def invalid_key_def split: if_splits)
  from assms k s obtain n m where m: "match_keyPattern (trim s) = Some (n, m)"
    by (cases "match_keyPattern (trim s)") (auto simp: parseKey_def invalid_key_def)
  have n: "note_shape n" using m by (rule match_keyPattern_SomeD)
  then have e: "\<not> endsWith n ''m''" by (simp add: endsWith_m note_shape_last)
  show ?thesis
  proof (cases m)
    case None
    with k s m e have "parseKey k = major_result n"
      by (simp add: parseKey_def major_result_def toLowerCase_def toLowerCase_char_def Let_def)
    with n show ?thesis by blast
  next
    case (Some t)
    with m have "is_mode_token t" by (simp add: match_keyPattern_SomeD)
    then have "toLowerCase t \<in> {''major'', ''minor'', ''maj'', ''min'', ''m''}"
      by (rule mode_token_lower)
    with k s m Some have "parseKey k = major_result n \<or> parseKey k = minor_result n"
      by (auto simp: parseKey_def major_result_def minor_result_def Let_def)
    with n show ?thesis by blast
  qed
qed


lemma letter_not_space: "is_note_letter c \<Longrightarrow> \<not> is_space c"
  by (auto simp: is_note_letter_def is_space_def toUpperCase_char_def char_of_eq_iff
      split: if_splits)

lemma accidental_not_space: "is_accidental c \<Longrightarrow> \<not> is_space c"
  by (auto simp: is_accidental_def is_space_def toUpperCase_char_def char_of_eq_iff
      split: if_splits)

lemma trim_no_space: "s \<noteq> [] \<Longrightarrow> \<not> is_space (hd s) \<Longrightarrow> \<not> is_space (last s) \<Longrightarrow> trim s = s"
proof -
  assume a: "s \<noteq> []" "\<not> is_space (hd s)" "\<not> is_space (last s)"
  then have "dropWhile is_space s = s" by (cases s) auto
  moreover have "dropWhile is_space (rev s) = rev s"
    using a by (cases s rule: rev_cases) auto
  ultimately show ?thesis by (simp add: trim_def)
qed

lemma mode_token_m: "is_mode_token ''m''"
  by (simp add: is_mode_token_def toUpperCase_def toUpperCase_char_def char_of_eq_iff)

lemma m_not_space: "\<not> is_space CHR ''m''"
  by (simp add: is_space_def)

lemma parseKey_major_canonical:
  assumes "note_shape n"
  shows "parseKey (Some n) = major_result n"
proof -
  from assms obtain c where c: "is_note_letter c"
    and n: "n = [c] \<or> (\<exists>a. is_accidental a \<and> n = [c, a])"
    by (auto simp: note_shape_def)
  have t: "trim n = n"
    using c n by (auto intro!: trim_no_space simp: letter_not_space accidental_not_space)
  have m: "match_keyPattern n = Some (n, None)"
    using c n by auto
  have u: "n \<noteq> ''Unknown''" "n \<noteq> []" using n by auto
  have e: "\<not> endsWith n ''m''" using assms by (simp add: endsWith_m note_shape_last)
  show ?thesis
    using t m u e
    by (simp add: parseKey_def major_result_def Let_def toLowerCase_def toLowerCase_char_def)
qed

lemma parseKey_minor_canonical:
  assumes "note_shape n"
  shows "parseKey (Some (n @ ''m'')) = minor_result n"
proof -
  from assms obtain c where c: "is_note_letter c"
    and n: "n = [c] \<or> (\<exists>a. is_accidental a \<and> n = [c, a])"
    by (auto simp: note_shape_def)
  have t: "trim (n @ ''m'') = n @ ''m''"
    using c n by (auto intro!: trim_no_space simp: letter_not_space m_not_space)
  have m: "match_keyPattern (n @ ''m'') = Some (n, Some ''m'')"
    using c n by (auto simp: m_not_space mode_token_m dest: not_m_accidental)
  have u: "n @ ''m'' \<noteq> ''Unknown''" "n @ ''m'' \<noteq> []" using n by auto
  show ?thesis
    using t m u
    by (simp add: parseKey_def minor_result_def Let_def toLowerCase_def toLowerCase_char_def)
qed

subsection \<open>Parsing a canonical identity again\<close>

text \<open>
  Claim C8. For every key string \<open>k\<close> that \<open>parseKey\<close> accepts, parsing the canonical
  identity \<open>key (parseKey k)\<close> gives the same result as parsing \<open>k\<close>, in every field: the
  records are equal.
\<close>

theorem parseKey_canonical_idempotent:
  assumes "isValid (parseKey k)"
  shows "parseKey (key (parseKey k)) = parseKey k"
proof -
  from assms obtain n where n: "note_shape n"
    and r: "parseKey k = major_result n \<or> parseKey k = minor_result n"
    using parseKey_valid_shape by blast
  from r show ?thesis
  proof
    assume "parseKey k = major_result n"
    then show ?thesis
      using parseKey_major_canonical [OF n] by (simp add: major_result_def)
  next
    assume "parseKey k = minor_result n"
    then show ?thesis
      using parseKey_minor_canonical [OF n] by (simp add: minor_result_def)
  qed
qed

theorem parseKey_canonical_idempotent_witness:
  "isValid (parseKey (Some ''F# Minor'')) \<and>
   key (parseKey (Some ''F# Minor'')) = Some ''F#m'' \<and>
   parseKey (Some ''F#m'') = parseKey (Some ''F# Minor'')"
proof -
  have v: "isValid (parseKey (Some ''F# Minor''))" by code_simp
  have k: "key (parseKey (Some ''F# Minor'')) = Some ''F#m''" by code_simp
  from parseKey_canonical_idempotent [OF v] v k show ?thesis by simp
qed

subsection \<open>The branches of calculateKeyCompatibility\<close>

lemma areRelativeKeys_commute: "areRelativeKeys p1 p2 = areRelativeKeys p2 p1"
  by (auto simp: areRelativeKeys_def list_ex_iff)

lemma areParallelKeys_commute: "areParallelKeys p1 p2 = areParallelKeys p2 p1"
  by (auto simp: areParallelKeys_def)

lemma calculateCircleDistance_commute:
  "calculateCircleDistance a b = calculateCircleDistance b a"
  by (simp add: calculateCircleDistance_def abs_minus_commute)

lemma keyCompat_invalid:
  "\<not> isValid (parseKey k1) \<or> \<not> isValid (parseKey k2) \<Longrightarrow>
   calculateKeyCompatibility k1 k2 =
     \<lparr>compatibility = ''unknown'', score = 0, reason = ''Invalid key data''\<rparr>"
  by (auto simp: calculateKeyCompatibility_def Let_def)

lemma keyCompat_same:
  "isValid (parseKey k1) \<Longrightarrow> isValid (parseKey k2) \<Longrightarrow> key (parseKey k1) = key (parseKey k2) \<Longrightarrow>
   calculateKeyCompatibility k1 k2 =
     \<lparr>compatibility = ''perfect'', score = 100, reason = ''Same key''\<rparr>"
  by (simp add: calculateKeyCompatibility_def Let_def)

lemma keyCompat_relative:
  "isValid (parseKey k1) \<Longrightarrow> isValid (parseKey k2) \<Longrightarrow> key (parseKey k1) \<noteq> key (parseKey k2) \<Longrightarrow>
   areRelativeKeys (parseKey k1) (parseKey k2) \<Longrightarrow>
   calculateKeyCompatibility k1 k2 =
     \<lparr>compatibility = ''excellent'', score = 95, reason = ''Relative major/minor keys''\<rparr>"
  by (simp add: calculateKeyCompatibility_def Let_def)

lemma keyCompat_parallel:
  "isValid (parseKey k1) \<Longrightarrow> isValid (parseKey k2) \<Longrightarrow> key (parseKey k1) \<noteq> key (parseKey k2) \<Longrightarrow>
   \<not> areRelativeKeys (parseKey k1) (parseKey k2) \<Longrightarrow>
   areParallelKeys (parseKey k1) (parseKey k2) \<Longrightarrow>
   calculateKeyCompatibility k1 k2 =
     \<lparr>compatibility = ''very-good'', score = 85, reason = ''Parallel major/minor keys''\<rparr>"
  by (simp add: calculateKeyCompatibility_def Let_def)

lemma keyCompat_distance:
  "isValid (parseKey k1) \<Longrightarrow> isValid (parseKey k2) \<Longrightarrow> key (parseKey k1) \<noteq> key (parseKey k2) \<Longrightarrow>
   \<not> areRelativeKeys (parseKey k1) (parseKey k2) \<Longrightarrow>
   \<not> areParallelKeys (parseKey k1) (parseKey k2) \<Longrightarrow>
   circlePosition (parseKey k1) = Some a \<Longrightarrow> circlePosition (parseKey k2) = Some b \<Longrightarrow>
   calculateKeyCompatibility k1 k2 =
     (if calculateCircleDistance a b = 1 then
        \<lparr>compatibility = ''good'', score = 80, reason = ''Adjacent keys in circle of fifths''\<rparr>
      else if calculateCircleDistance a b = 2 then
        \<lparr>compatibility = ''fair'', score = 60, reason = ''Two steps apart in circle of fifths''\<rparr>
      else if calculateCircleDistance a b = 3 then
        \<lparr>compatibility = ''acceptable'', score = 40,
         reason = ''Three steps apart in circle of fifths''\<rparr>
      else poor_key)"
  by (simp add: calculateKeyCompatibility_def Let_def)

lemma keyCompat_no_position:
  "isValid (parseKey k1) \<Longrightarrow> isValid (parseKey k2) \<Longrightarrow> key (parseKey k1) \<noteq> key (parseKey k2) \<Longrightarrow>
   \<not> areRelativeKeys (parseKey k1) (parseKey k2) \<Longrightarrow>
   \<not> areParallelKeys (parseKey k1) (parseKey k2) \<Longrightarrow>
   circlePosition (parseKey k1) = None \<or> circlePosition (parseKey k2) = None \<Longrightarrow>
   calculateKeyCompatibility k1 k2 = poor_key"
  by (auto simp: calculateKeyCompatibility_def Let_def split: option.splits)

lemma relativePairs_last:
  "(M, m) \<in> set relativePairs \<Longrightarrow> M \<noteq> [] \<and> last M \<noteq> CHR ''m'' \<and> m \<noteq> [] \<and> last m = CHR ''m''"
  by (auto simp: relativePairs_def)

lemma areRelativeKeys_iff:
  "areRelativeKeys p1 p2 \<longleftrightarrow>
     (\<exists>M m. (M, m) \<in> set relativePairs \<and>
        ((key p1 = Some M \<and> key p2 = Some m) \<or> (key p1 = Some m \<and> key p2 = Some M)))"
  by (auto simp: areRelativeKeys_def list_ex_iff)

lemma valid_key_last:
  assumes "isValid (parseKey k)"
  shows "\<exists>s. key (parseKey k) = Some s \<and> s \<noteq> [] \<and>
           (last s = CHR ''m'' \<longleftrightarrow> mode (parseKey k) = Some ''minor'') \<and>
           (mode (parseKey k) = Some ''minor'' \<or> mode (parseKey k) = Some ''major'')"
proof -
  from assms obtain n where n: "note_shape n"
    and r: "parseKey k = major_result n \<or> parseKey k = minor_result n"
    using parseKey_valid_shape by blast
  from r show ?thesis
    using note_shape_last [OF n] by (auto simp: major_result_def minor_result_def)
qed

lemma relative_modes_differ:
  assumes "isValid (parseKey k1)" "isValid (parseKey k2)"
    and "areRelativeKeys (parseKey k1) (parseKey k2)"
  shows "mode (parseKey k1) \<noteq> mode (parseKey k2)"
proof -
  from valid_key_last [OF assms(1)] obtain s1 where s1: "key (parseKey k1) = Some s1"
    "last s1 = CHR ''m'' \<longleftrightarrow> mode (parseKey k1) = Some ''minor''" by blast
  from valid_key_last [OF assms(2)] obtain s2 where s2: "key (parseKey k2) = Some s2"
    "last s2 = CHR ''m'' \<longleftrightarrow> mode (parseKey k2) = Some ''minor''" by blast
  from assms(3) obtain M m where "(M, m) \<in> set relativePairs"
    and "(s1 = M \<and> s2 = m) \<or> (s1 = m \<and> s2 = M)"
    using s1(1) s2(1) by (auto simp: areRelativeKeys_iff)
  then have "(last s1 = CHR ''m'') \<noteq> (last s2 = CHR ''m'')"
    using relativePairs_last by blast
  with s1(2) s2(2) show ?thesis by auto
qed

text \<open>Results of \<open>parseKey\<close> on the key strings of the examples.\<close>

lemma parse_C_major: "parseKey (Some ''C Major'') = major_result ''C''"
  by code_simp

lemma parse_A_minor: "parseKey (Some ''Am'') = minor_result ''A''"
  by code_simp

lemma parse_F_sharp_major: "parseKey (Some ''F# Major'') = major_result ''F#''"
  by code_simp

lemma parse_G_flat_major: "parseKey (Some ''Gb Major'') = major_result ''Gb''"
  by code_simp

lemma parse_examples:
  "parseKey (Some ''Unknown'') = invalid_key"
  "parseKey (Some ''C'') = major_result ''C''"
  "parseKey (Some ''Cm'') = minor_result ''C''"
  "parseKey (Some ''G Major'') = major_result ''G''"
  "parseKey (Some ''D Major'') = major_result ''D''"
  "parseKey (Some ''A Major'') = major_result ''A''"
  "parseKey (Some ''G#'') = major_result ''G#''"
  by code_simp+

subsection \<open>The priority cascade of the key classifier\<close>

text \<open>
  Claim C1. For every pair of key strings \<open>calculateKeyCompatibility\<close> follows the
  priority cascade, the first rule that matches deciding the result:
  \<^enum> a key that fails to parse gives \<open>unknown\<close>, 0, \<open>Invalid key data\<close>;
  \<^enum> equal canonical identities give \<open>perfect\<close>, 100, \<open>Same key\<close>;
  \<^enum> a pair of the table of 14 relative pairs, in either order, gives \<open>excellent\<close>, 95,
    \<open>Relative major/minor keys\<close>;
  \<^enum> the same root note with different modes gives \<open>very-good\<close>, 85,
    \<open>Parallel major/minor keys\<close>;
  \<^enum> otherwise the circular distance \<open>min \<bar>a - b\<bar> (12 - \<bar>a - b\<bar>)\<close> of the two circle
    positions decides: 1 gives \<open>good\<close>, 80; 2 gives \<open>fair\<close>, 60; 3 gives \<open>acceptable\<close>, 40;
    a distance of 4 or more, or a position that is not defined, gives \<open>poor\<close>, 20.

  Each rule is stated under the negation of the rules before it. The cascade as claimed
  names no rule for the distance 0, and the theorem states none.
\<close>

theorem calculateKeyCompatibility_cascade:
  "let p1 = parseKey k1; p2 = parseKey k2; r = calculateKeyCompatibility k1 k2;
       valid = (isValid p1 \<and> isValid p2);
       same = (key p1 = key p2);
       relative = (\<exists>M m. (M, m) \<in> set relativePairs \<and>
                    ((key p1 = Some M \<and> key p2 = Some m) \<or>
                     (key p1 = Some m \<and> key p2 = Some M)));
       parallel = (note_name p1 = note_name p2 \<and> mode p1 \<noteq> mode p2)
   in length relativePairs = 14 \<and>
      (\<not> valid \<longrightarrow>
         r = \<lparr>compatibility = ''unknown'', score = 0, reason = ''Invalid key data''\<rparr>) \<and>
      (valid \<and> same \<longrightarrow>
         r = \<lparr>compatibility = ''perfect'', score = 100, reason = ''Same key''\<rparr>) \<and>
      (valid \<and> \<not> same \<and> relative \<longrightarrow>
         r = \<lparr>compatibility = ''excellent'', score = 95,
              reason = ''Relative major/minor keys''\<rparr>) \<and>
      (valid \<and> \<not> same \<and> \<not> relative \<and> parallel \<longrightarrow>
         r = \<lparr>compatibility = ''very-good'', score = 85,
              reason = ''Parallel major/minor keys''\<rparr>) \<and>
      (valid \<and> \<not> same \<and> \<not> relative \<and> \<not> parallel \<longrightarrow>
         (\<forall>a b. circlePosition p1 = Some a \<and> circlePosition p2 = Some b \<longrightarrow>
            (let distance = min \<bar>int a - int b\<bar> (12 - \<bar>int a - int b\<bar>) in
               (distance = 1 \<longrightarrow>
                  r = \<lparr>compatibility = ''good'', score = 80,
                       reason = ''Adjacent keys in circle of fifths''\<rparr>) \<and>
               (distance = 2 \<longrightarrow>
                  r = \<lparr>compatibility = ''fair'', score = 60,
                       reason = ''Two steps apart in circle of fifths''\<rparr>) \<and>
               (distance = 3 \<longrightarrow>
                  r = \<lparr>compatibility = ''acceptable'', score = 40,
                       reason = ''Three steps apart in circle of fifths''\<rparr>) \<and>
               (4 \<le> distance \<longrightarrow>
                  r = \<lparr>compatibility = ''poor'', score = 20,
                       reason = ''Keys are not harmonically related''\<rparr>))) \<and>
         (circlePosition p1 = None \<or> circlePosition p2 = None \<longrightarrow>
            r = \<lparr>compatibility = ''poor'', score = 20,
                 reason = ''Keys are not harmonically related''\<rparr>))"
proof -
  let ?p1 = "parseKey k1" and ?p2 = "parseKey k2"
  have n: "length relativePairs = 14" by (simp add: relativePairs_def)
  have rel: "(\<exists>M m. (M, m) \<in> set relativePairs \<and>
                ((key ?p1 = Some M \<and> key ?p2 = Some m) \<or>
                 (key ?p1 = Some m \<and> key ?p2 = Some M))) = areRelativeKeys ?p1 ?p2"
    by (simp add: areRelativeKeys_iff)
  have par: "(note_name ?p1 = note_name ?p2 \<and> mode ?p1 \<noteq> mode ?p2) = areParallelKeys ?p1 ?p2"
    by (simp add: areParallelKeys_def)
  have dist: "min \<bar>int a - int b\<bar> (12 - \<bar>int a - int b\<bar>) = calculateCircleDistance a b" for a b
    by (simp add: calculateCircleDistance_def Let_def)
  show ?thesis
    unfolding Let_def rel par dist
    using n
    by (auto simp: keyCompat_invalid keyCompat_same keyCompat_relative keyCompat_parallel
        keyCompat_distance keyCompat_no_position poor_key_def)
qed

theorem calculateKeyCompatibility_cascade_witness:
  "calculateKeyCompatibility (Some ''Unknown'') (Some ''C Major'') =
     \<lparr>compatibility = ''unknown'', score = 0, reason = ''Invalid key data''\<rparr> \<and>
   calculateKeyCompatibility (Some ''C Major'') (Some ''C'') =
     \<lparr>compatibility = ''perfect'', score = 100, reason = ''Same key''\<rparr> \<and>
   calculateKeyCompatibility (Some ''C Major'') (Some ''Am'') =
     \<lparr>compatibility = ''excellent'', score = 95, reason = ''Relative major/minor keys''\<rparr> \<and>
   calculateKeyCompatibility (Some ''C Major'') (Some ''Cm'') =
     \<lparr>compatibility = ''very-good'', score = 85, reason = ''Parallel major/minor keys''\<rparr> \<and>
   calculateKeyCompatibility (Some ''C Major'') (Some ''G Major'') =
     \<lparr>compatibility = ''good'', score = 80, reason = ''Adjacent keys in circle of fifths''\<rparr> \<and>
   calculateKeyCompatibility (Some ''C Major'') (Some ''D Major'') =
     \<lparr>compatibility = ''fair'', score = 60, reason = ''Two steps apart in circle of fifths''\<rparr> \<and>
   calculateKeyCompatibility (Some ''C Major'') (Some ''A Major'') =
     \<lparr>compatibility = ''acceptable'', score = 40, reason = ''Three steps apart in circle of fifths''\<rparr> \<and>
   calculateKeyCompatibility (Some ''C Major'') (Some ''F# Major'') =
     \<lparr>compatibility = ''poor'', score = 20, reason = ''Keys are not harmonically related''\<rparr> \<and>
   calculateKeyCompatibility (Some ''C Major'') (Some ''G#'') =
     \<lparr>compatibility = ''poor'', score = 20, reason = ''Keys are not harmonically related''\<rparr>"
proof -
  note parsed = parse_examples parse_C_major parse_A_minor parse_F_sharp_major
  have r1: "calculateKeyCompatibility (Some ''Unknown'') (Some ''C Major'') =
     \<lparr>compatibility = ''unknown'', score = 0, reason = ''Invalid key data''\<rparr>"
    using calculateKeyCompatibility_cascade [of "Some ''Unknown''" "Some ''C Major''",
        unfolded Let_def areRelativeKeys_iff [symmetric]]
    by (simp add: areRelativeKeys_def relativePairs_def
        parsed major_result_def minor_result_def invalid_key_def circleOfFifths_def)
  have r2: "calculateKeyCompatibility (Some ''C Major'') (Some ''C'') =
     \<lparr>compatibility = ''perfect'', score = 100, reason = ''Same key''\<rparr>"
    using calculateKeyCompatibility_cascade [of "Some ''C Major''" "Some ''C''",
        unfolded Let_def areRelativeKeys_iff [symmetric]]
    by (simp add: areRelativeKeys_def relativePairs_def
        parsed major_result_def minor_result_def invalid_key_def circleOfFifths_def)
  have r3: "calculateKeyCompatibility (Some ''C Major'') (Some ''Am'') =
     \<lparr>compatibility = ''excellent'', score = 95, reason = ''Relative major/minor keys''\<rparr>"
    using calculateKeyCompatibility_cascade [of "Some ''C Major''" "Some ''Am''",
        unfolded Let_def areRelativeKeys_iff [symmetric]]
    by (simp add: areRelativeKeys_def relativePairs_def
        parsed major_result_def minor_result_def invalid_key_def circleOfFifths_def)
  have r4: "calculateKeyCompatibility (Some ''C Major'') (Some ''Cm'') =
     \<lparr>compatibility = ''very-good'', score = 85, reason = ''Parallel major/minor keys''\<rparr>"
    using calculateKeyCompatibility_cascade [of "Some ''C Major''" "Some ''Cm''",
        unfolded Let_def areRelativeKeys_iff [symmetric]]
    by (simp add: areRelativeKeys_def relativePairs_def
        parsed major_result_def minor_result_def invalid_key_def circleOfFifths_def)
  have r5: "calculateKeyCompatibility (Some ''C Major'') (Some ''G Major'') =
     \<lparr>compatibility = ''good'', score = 80, reason = ''Adjacent keys in circle of fifths''\<rparr>"
    using calculateKeyCompatibility_cascade [of "Some ''C Major''" "Some ''G Major''",
        unfolded Let_def areRelativeKeys_iff [symmetric]]
    by (simp add: areRelativeKeys_def relativePairs_def
        parsed major_result_def minor_result_def invalid_key_def circleOfFifths_def)
  have r6: "calculateKeyCompatibility (Some ''C Major'') (Some ''D Major'') =
     \<lparr>compatibility = ''fair'', score = 60, reason = ''Two steps apart in circle of fifths''\<rparr>"
    using calculateKeyCompatibility_cascade [of "Some ''C Major''" "Some ''D Major''",
        unfolded Let_def areRelativeKeys_iff [symmetric]]
    by (simp add: areRelativeKeys_def relativePairs_def
        parsed major_result_def minor_result_def invalid_key_def circleOfFifths_def)
  have r7: "calculateKeyCompatibility (Some ''C Major'') (Some ''A Major'') =
     \<lparr>compatibility = ''acceptable'', score = 40, reason = ''Three steps apart in circle of fifths''\<rparr>"
    using calculateKeyCompatibility_cascade [of "Some ''C Major''" "Some ''A Major''",
        unfolded Let_def areRelativeKeys_iff [symmetric]]
    by (simp add: areRelativeKeys_def relativePairs_def
        parsed major_result_def minor_result_def invalid_key_def circleOfFifths_def)
  have r8: "calculateKeyCompatibility (Some ''C Major'') (Some ''F# Major'') =
     \<lparr>compatibility = ''poor'', score = 20, reason = ''Keys are not harmonically related''\<rparr>"
    using calculateKeyCompatibility_cascade [of "Some ''C Major''" "Some ''F# Major''",
        unfolded Let_def areRelativeKeys_iff [symmetric]]
    by (simp add: areRelativeKeys_def relativePairs_def
        parsed major_result_def minor_result_def invalid_key_def circleOfFifths_def)
  have r9: "calculateKeyCompatibility (Some ''C Major'') (Some ''G#'') =
     \<lparr>compatibility = ''poor'', score = 20, reason = ''Keys are not harmonically related''\<rparr>"
    using calculateKeyCompatibility_cascade [of "Some ''C Major''" "Some ''G#''",
        unfolded Let_def areRelativeKeys_iff [symmetric]]
    by (simp add: areRelativeKeys_def relativePairs_def
        parsed major_result_def minor_result_def invalid_key_def circleOfFifths_def)
  from r1 r2 r3 r4 r5 r6 r7 r8 r9 show ?thesis by (simp only: simp_thms)
qed

subsection \<open>Symmetry of the key classifier\<close>

text \<open>
  Claim C7. For all valid key strings \<open>k1\<close> and \<open>k2\<close>, \<open>calculateKeyCompatibility k1 k2\<close>
  and \<open>calculateKeyCompatibility k2 k1\<close> are the same record: the same label, score and
  reason.
\<close>

theorem calculateKeyCompatibility_symmetric:
  assumes v1: "isValid (parseKey k1)" and v2: "isValid (parseKey k2)"
  shows "calculateKeyCompatibility k1 k2 = calculateKeyCompatibility k2 k1"
proof -
  let ?p1 = "parseKey k1" and ?p2 = "parseKey k2"
  consider (same) "key ?p1 = key ?p2"
    | (relative) "key ?p1 \<noteq> key ?p2" "areRelativeKeys ?p1 ?p2"
    | (parallel) "key ?p1 \<noteq> key ?p2" "\<not> areRelativeKeys ?p1 ?p2" "areParallelKeys ?p1 ?p2"
    | (other) "key ?p1 \<noteq> key ?p2" "\<not> areRelativeKeys ?p1 ?p2" "\<not> areParallelKeys ?p1 ?p2"
    by blast
  then show ?thesis
  proof cases
    case same
    with v1 v2 show ?thesis by (simp add: keyCompat_same)
  next
    case relative
    moreover from relative have "key ?p2 \<noteq> key ?p1" "areRelativeKeys ?p2 ?p1"
      by (simp_all add: areRelativeKeys_commute [of ?p2])
    ultimately show ?thesis using v1 v2 by (simp add: keyCompat_relative)
  next
    case parallel
    moreover from parallel have "key ?p2 \<noteq> key ?p1" "\<not> areRelativeKeys ?p2 ?p1"
      "areParallelKeys ?p2 ?p1"
      by (simp_all add: areRelativeKeys_commute [of ?p2] areParallelKeys_commute [of ?p2])
    ultimately show ?thesis using v1 v2 by (simp add: keyCompat_parallel)
  next
    case other
    from other have o: "key ?p2 \<noteq> key ?p1" "\<not> areRelativeKeys ?p2 ?p1"
      "\<not> areParallelKeys ?p2 ?p1"
      by (simp_all add: areRelativeKeys_commute [of ?p2] areParallelKeys_commute [of ?p2])
    show ?thesis
    proof (cases "circlePosition ?p1 = None \<or> circlePosition ?p2 = None")
      case True
      then have "circlePosition ?p2 = None \<or> circlePosition ?p1 = None" by auto
      with True other o v1 v2 show ?thesis by (simp add: keyCompat_no_position)
    next
      case False
      then obtain a b where "circlePosition ?p1 = Some a" "circlePosition ?p2 = Some b"
        by auto
      with other o v1 v2 show ?thesis
        by (simp add: keyCompat_distance calculateCircleDistance_commute [of b a])
    qed
  qed
qed

theorem calculateKeyCompatibility_symmetric_witness:
  "isValid (parseKey (Some ''C Major'')) \<and> isValid (parseKey (Some ''Am'')) \<and>
   calculateKeyCompatibility (Some ''C Major'') (Some ''Am'') =
     calculateKeyCompatibility (Some ''Am'') (Some ''C Major'') \<and>
   calculateKeyCompatibility (Some ''Am'') (Some ''C Major'') =
     \<lparr>compatibility = ''excellent'', score = 95, reason = ''Relative major/minor keys''\<rparr>"
proof -
  have v: "isValid (parseKey (Some ''C Major''))" "isValid (parseKey (Some ''Am''))"
    by (simp_all add: parse_C_major parse_A_minor major_result_def minor_result_def)
  have r: "calculateKeyCompatibility (Some ''Am'') (Some ''C Major'') =
     \<lparr>compatibility = ''excellent'', score = 95, reason = ''Relative major/minor keys''\<rparr>"
    by (simp add: calculateKeyCompatibility_def parse_C_major parse_A_minor major_result_def
        minor_result_def areRelativeKeys_def relativePairs_def)
  from calculateKeyCompatibility_symmetric [OF v] v r show ?thesis by simp
qed

subsection \<open>Enharmonic spellings of one key\<close>

text \<open>
  Claim C10. Two valid key strings that have the same circle position and the same mode
  but different canonical identities (as \<open>F# Major\<close> and \<open>Gb Major\<close>) are not a relative
  pair and not parallel, their circular distance is 0, and \<open>calculateKeyCompatibility\<close>
  returns \<open>poor\<close>, 20, \<open>Keys are not harmonically related\<close>, not \<open>perfect\<close>.
\<close>

theorem enharmonic_spellings_poor:
  assumes "isValid (parseKey k1)" and "isValid (parseKey k2)"
    and "circlePosition (parseKey k1) = Some p" and "circlePosition (parseKey k2) = Some p"
    and "mode (parseKey k1) = mode (parseKey k2)"
    and "key (parseKey k1) \<noteq> key (parseKey k2)"
  shows "\<not> areRelativeKeys (parseKey k1) (parseKey k2) \<and>
         \<not> areParallelKeys (parseKey k1) (parseKey k2) \<and>
         calculateCircleDistance p p = 0 \<and>
         calculateKeyCompatibility k1 k2 =
           \<lparr>compatibility = ''poor'', score = 20,
            reason = ''Keys are not harmonically related''\<rparr>"
proof -
  have r: "\<not> areRelativeKeys (parseKey k1) (parseKey k2)"
    using relative_modes_differ [OF assms(1,2)] assms(5) by blast
  have q: "\<not> areParallelKeys (parseKey k1) (parseKey k2)"
    using assms(5) by (simp add: areParallelKeys_def)
  have d: "calculateCircleDistance p p = 0"
    by (simp add: calculateCircleDistance_def)
  have "calculateKeyCompatibility k1 k2 = poor_key"
    using keyCompat_distance [OF assms(1,2,6) r q assms(3,4)] d by simp
  with r q d show ?thesis by (simp add: poor_key_def)
qed

theorem enharmonic_spellings_poor_witness:
  "isValid (parseKey (Some ''F# Major'')) \<and> isValid (parseKey (Some ''Gb Major'')) \<and>
   circlePosition (parseKey (Some ''F# Major'')) = Some 6 \<and>
   circlePosition (parseKey (Some ''Gb Major'')) = Some 6 \<and>
   mode (parseKey (Some ''F# Major'')) = mode (parseKey (Some ''Gb Major'')) \<and>
   key (parseKey (Some ''F# Major'')) \<noteq> key (parseKey (Some ''Gb Major'')) \<and>
   calculateKeyCompatibility (Some ''F# Major'') (Some ''Gb Major'') =
     \<lparr>compatibility = ''poor'', score = 20, reason = ''Keys are not harmonically related''\<rparr>"
proof -
  have a: "isValid (parseKey (Some ''F# Major''))" "isValid (parseKey (Some ''Gb Major''))"
    "circlePosition (parseKey (Some ''F# Major'')) = Some 6"
    "circlePosition (parseKey (Some ''Gb Major'')) = Some 6"
    "mode (parseKey (Some ''F# Major'')) = mode (parseKey (Some ''Gb Major''))"
    "key (parseKey (Some ''F# Major'')) \<noteq> key (parseKey (Some ''Gb Major''))"
    by (simp_all add: parse_F_sharp_major parse_G_flat_major major_result_def circleOfFifths_def)
  from enharmonic_spellings_poor [OF a] a show ?thesis by simp
qed

subsection \<open>The strings parseKey accepts\<close>

lemma match_keyPattern_grammar:
  assumes "match_keyPattern s = Some (n, m)"
  shows "relaxed_key_grammar s"
proof -
  from assms obtain c cs where s: "s = c # cs" and c: "is_note_letter c"
    by (cases s) (auto split: if_splits)
  define acc where "acc = (case cs of a # cs' \<Rightarrow> if is_accidental a then [a] else [] | [] \<Rightarrow> [])"
  define rest where "rest = (case cs of a # cs' \<Rightarrow> if is_accidental a then cs' else cs | [] \<Rightarrow> [])"
  have cs: "cs = acc @ rest"
    by (auto simp: acc_def rest_def split: list.splits)
  have a: "toUpperCase acc \<in> {[], ''#'', ''B''}"
    by (auto simp: acc_def is_accidental_def toUpperCase_def split: list.splits)
  have r: "rest = takeWhile is_space rest @ dropWhile is_space rest" by simp
  have w: "list_all is_space (takeWhile is_space rest)"
    by (simp add: list_all_iff) (meson set_takeWhileD)
  have t: "dropWhile is_space rest = [] \<or> is_mode_token (dropWhile is_space rest)"
    using assms s c
    by (auto simp: rest_def Let_def split: list.splits if_splits)
  show ?thesis
    unfolding relaxed_key_grammar_def
    using s c cs a r w t
    by (metis is_note_letter_def)
qed

lemma specified_key_grammarD:
  assumes "specified_key_grammar s"
  shows "\<exists>c rest tail. s = c # rest \<and> c \<in> set ''ABCDEFG'' \<and>
           (rest = tail \<or> rest = CHR ''#'' # tail \<or> rest = CHR ''b'' # tail) \<and>
           (tail = [] \<or> tail = ''m'' \<or> tail = ''M'' \<or> (tail \<noteq> [] \<and> is_space (hd tail)))"
proof -
  from assms obtain c acc tail where s: "s = c # acc @ tail" and c: "c \<in> set ''ABCDEFG''"
    and acc: "acc \<in> {[], ''#'', ''b''}"
    and tail: "tail = [] \<or> tail = ''m'' \<or> tail = ''M'' \<or>
         (\<exists>ws tok. tail = ws @ tok \<and> ws \<noteq> [] \<and> list_all is_space ws \<and> is_mode_token tok)"
    unfolding specified_key_grammar_def by blast
  have "tail \<noteq> [] \<and> is_space (hd tail)"
    if "tail = ws @ tok" "ws \<noteq> []" "list_all is_space ws" for ws tok
    using that by (cases ws) auto
  with tail have t: "tail = [] \<or> tail = ''m'' \<or> tail = ''M'' \<or> (tail \<noteq> [] \<and> is_space (hd tail))"
    by blast
  from acc have "acc @ tail = tail \<or> acc @ tail = CHR ''#'' # tail \<or> acc @ tail = CHR ''b'' # tail"
    by auto
  with s c t show ?thesis by blast
qed

lemma parseKey_invalid_or_valid: "parseKey k = invalid_key \<or> isValid (parseKey k)"
proof (cases k)
  case None
  then show ?thesis by (simp add: parseKey_def)
next
  case (Some s)
  show ?thesis
  proof (cases "s = [] \<or> s = ''Unknown''")
    case True
    with Some show ?thesis by (auto simp: parseKey_def)
  next
    case False
    show ?thesis
    proof (cases "match_keyPattern (trim s)")
      case None
      with Some False show ?thesis by (simp add: parseKey_def)
    next
      case (Some nm)
      obtain n m where "nm = (n, m)" by (cases nm)
      with Some \<open>k = Some s\<close> False have "isValid (parseKey k)"
        by (simp add: parseKey_def Let_def split: option.splits prod.splits)
      then show ?thesis ..
    qed
  qed
qed

lemma B_not_space: "\<not> is_space CHR ''B''"
  by (simp add: is_space_def)

text \<open>
  Claim C3 says that \<open>parseKey\<close> accepts a string only if its trimmed form is in the
  grammar of the specification, \<open>specified_key_grammar\<close>. The key pattern is matched
  without regard to letter case as a whole and lets the mode token follow the note
  directly: \<open>c\<close>, \<open>AB\<close> and \<open>Cmaj\<close> are accepted and are not in that grammar.
\<close>

theorem parseKey_grammar_counterexample:
  "isValid (parseKey (Some ''c'')) \<and> \<not> specified_key_grammar (trim ''c'') \<and>
   isValid (parseKey (Some ''AB'')) \<and> \<not> specified_key_grammar (trim ''AB'') \<and>
   isValid (parseKey (Some ''Cmaj'')) \<and> \<not> specified_key_grammar (trim ''Cmaj'')"
proof -
  have v: "isValid (parseKey (Some ''c''))" "isValid (parseKey (Some ''AB''))"
    "isValid (parseKey (Some ''Cmaj''))"
    by code_simp+
  have t: "trim ''c'' = ''c''" "trim ''AB'' = ''AB''" "trim ''Cmaj'' = ''Cmaj''"
    by (simp_all add: trim_def is_space_def)
  have 1: "\<not> specified_key_grammar ''c''"
    using specified_key_grammarD [of "''c''"] by auto
  have 2: "\<not> specified_key_grammar ''AB''"
    using specified_key_grammarD [of "''AB''"] by (auto simp: B_not_space)
  have 3: "\<not> specified_key_grammar ''Cmaj''"
    using specified_key_grammarD [of "''Cmaj''"] by (auto simp: m_not_space)
  from v t 1 2 3 show ?thesis by (simp only: simp_thms)
qed

text \<open>
  Claim C3 as amended. \<open>parseKey\<close> accepts a string only if its trimmed form is in the
  grammar read without regard to letter case and with the white space before the mode
  token optional, \<open>relaxed_key_grammar\<close>. Every string whose trimmed form is not in it is
  invalid and has no circle position, and so are the empty string and \<open>Unknown\<close>.
\<close>

theorem parseKey_valid_only_if_relaxed_grammar:
  "(isValid (parseKey k) \<longrightarrow> (\<exists>s. k = Some s \<and> relaxed_key_grammar (trim s))) \<and>
   ((\<forall>s. k = Some s \<longrightarrow> \<not> relaxed_key_grammar (trim s)) \<longrightarrow>
      \<not> isValid (parseKey k) \<and> circlePosition (parseKey k) = None) \<and>
   \<not> isValid (parseKey (Some [])) \<and> circlePosition (parseKey (Some [])) = None \<and>
   \<not> isValid (parseKey (Some ''Unknown'')) \<and>
   circlePosition (parseKey (Some ''Unknown'')) = None"
proof -
  have 1: "\<exists>s. k = Some s \<and> relaxed_key_grammar (trim s)" if "isValid (parseKey k)"
  proof -
    from that obtain s where k: "k = Some s"
      by (cases k) (auto simp: parseKey_def invalid_key_def)
    from that k obtain n m where "match_keyPattern (trim s) = Some (n, m)"
      by (cases "match_keyPattern (trim s)")
         (auto simp: parseKey_def invalid_key_def split: if_splits)
    then have "relaxed_key_grammar (trim s)" by (rule match_keyPattern_grammar)
    with k show ?thesis by blast
  qed
  have 2: "circlePosition (parseKey k) = None" if "\<not> isValid (parseKey k)" for k
    using that parseKey_invalid_or_valid [of k] by (auto simp: invalid_key_def)
  have 3: "\<not> isValid (parseKey (Some []))" "\<not> isValid (parseKey (Some ''Unknown''))"
    by (simp_all add: parseKey_def invalid_key_def)
  from 1 2 3 show ?thesis by blast
qed

theorem parseKey_valid_only_if_relaxed_grammar_witness:
  "isValid (parseKey (Some ''f# MINOR'')) \<and> relaxed_key_grammar (trim ''f# MINOR'') \<and>
   \<not> relaxed_key_grammar (trim ''InvalidKey123'') \<and>
   \<not> isValid (parseKey (Some ''InvalidKey123'')) \<and>
   circlePosition (parseKey (Some ''InvalidKey123'')) = None"
proof -
  have v: "isValid (parseKey (Some ''f# MINOR''))" by code_simp
  have g: "relaxed_key_grammar (trim ''f# MINOR'')"
    using parseKey_valid_only_if_relaxed_grammar [of "Some ''f# MINOR''"] v by simp
  have t: "trim ''InvalidKey123'' = ''InvalidKey123''"
    by (simp add: trim_def is_space_def)
  have n: "\<not> relaxed_key_grammar (trim ''InvalidKey123'')"
    unfolding t by (simp add: relaxed_key_grammar_def toUpperCase_char_def)
  have i: "\<not> isValid (parseKey (Some ''InvalidKey123'')) \<and>
           circlePosition (parseKey (Some ''InvalidKey123'')) = None"
    using parseKey_valid_only_if_relaxed_grammar [of "Some ''InvalidKey123''"] n by simp
  from v g n i show ?thesis by (simp only: simp_thms)
qed

text \<open>
  The key pattern accepts exactly the relaxed grammar: every non-empty string other than
  \<open>Unknown\<close> whose trimmed form is in it is valid.
\<close>

lemma mode_token_hd:
  assumes "is_mode_token tok"
  shows "tok \<noteq> [] \<and> \<not> is_space (hd tok) \<and> \<not> is_accidental (hd tok)"
proof -
  from assms have "toUpperCase tok \<noteq> []" "hd (toUpperCase tok) = CHR ''M''"
    by (auto simp: is_mode_token_def)
  then have t: "tok \<noteq> []" and h: "toUpperCase_char (hd tok) = CHR ''M''"
    by (auto simp: toUpperCase_def hd_map)
  from h have "\<not> is_accidental (hd tok)" by (simp add: is_accidental_def)
  moreover from h have "\<not> is_space (hd tok)"
    by (auto simp: is_space_def toUpperCase_char_def Let_def char_of_eq_iff split: if_splits)
  ultimately show ?thesis using t by simp
qed

lemma dropWhile_spaces:
  assumes "list_all is_space ws" and "tok = [] \<or> \<not> is_space (hd tok)"
  shows "dropWhile is_space (ws @ tok) = tok"
proof -
  have "dropWhile is_space (ws @ tok) = dropWhile is_space tok"
    using assms(1) by (simp add: dropWhile_append list_all_iff)
  also have "\<dots> = tok" using assms(2) by (cases tok) auto
  finally show ?thesis .
qed

lemma match_without_accidental:
  assumes "is_note_letter c" and "rest = [] \<or> \<not> is_accidental (hd rest)"
  shows "match_keyPattern (c # rest) =
     (if dropWhile is_space rest = [] then Some ([c], None)
      else if is_mode_token (dropWhile is_space rest)
        then Some ([c], Some (dropWhile is_space rest))
      else None)"
  using assms by (cases rest) (simp_all add: Let_def del: dropWhile_eq_Nil_conv)

lemma match_with_accidental:
  assumes "is_note_letter c" and "is_accidental a"
  shows "match_keyPattern (c # a # rest) =
     (if dropWhile is_space rest = [] then Some ([c, a], None)
      else if is_mode_token (dropWhile is_space rest)
        then Some ([c, a], Some (dropWhile is_space rest))
      else None)"
  using assms by (simp add: Let_def del: dropWhile_eq_Nil_conv)

lemma relaxed_grammar_match:
  assumes "relaxed_key_grammar s"
  shows "match_keyPattern s \<noteq> None"
proof -
  from assms obtain c acc ws tok where s: "s = c # acc @ ws @ tok"
    and c: "is_note_letter c" and acc: "toUpperCase acc \<in> {[], ''#'', ''B''}"
    and ws: "list_all is_space ws" and tok: "tok = [] \<or> is_mode_token tok"
    unfolding relaxed_key_grammar_def is_note_letter_def by blast
  have d: "dropWhile is_space (ws @ tok) = tok"
    using ws tok mode_token_hd by (intro dropWhile_spaces) auto
  have n: "ws @ tok = [] \<or> \<not> is_accidental (hd (ws @ tok))"
  proof (cases ws)
    case Nil
    with tok mode_token_hd show ?thesis by auto
  next
    case (Cons w ws')
    with ws have "is_space w" by simp
    then have "\<not> is_accidental w" using accidental_not_space by blast
    with Cons show ?thesis by simp
  qed
  from acc consider (none) "acc = []" | (one) a where "acc = [a]" "is_accidental a"
    by (cases acc) (auto simp: toUpperCase_def is_accidental_def)
  then show ?thesis
  proof cases
    case none
    then have "s = c # (ws @ tok)" using s by simp
    then have "match_keyPattern s =
        (if tok = [] then Some ([c], None)
         else if is_mode_token tok then Some ([c], Some tok) else None)"
      by (simp only: match_without_accidental [OF c n] d)
    with tok show ?thesis by auto
  next
    case one
    then have "s = c # a # (ws @ tok)" using s by simp
    then have "match_keyPattern s =
        (if tok = [] then Some ([c, a], None)
         else if is_mode_token tok then Some ([c, a], Some tok) else None)"
      by (simp only: match_with_accidental [OF c one(2)] d)
    with tok show ?thesis by auto
  qed
qed

lemma parseKey_valid_iff:
  "isValid (parseKey (Some s)) \<longleftrightarrow> s \<noteq> [] \<and> s \<noteq> ''Unknown'' \<and> relaxed_key_grammar (trim s)"
proof
  assume v: "isValid (parseKey (Some s))"
  then have "s \<noteq> [] \<and> s \<noteq> ''Unknown''"
    by (auto simp: parseKey_def invalid_key_def split: if_splits)
  moreover from v obtain n m where "match_keyPattern (trim s) = Some (n, m)"
    by (cases "match_keyPattern (trim s)")
       (auto simp: parseKey_def invalid_key_def split: if_splits)
  then have "relaxed_key_grammar (trim s)" by (rule match_keyPattern_grammar)
  ultimately show "s \<noteq> [] \<and> s \<noteq> ''Unknown'' \<and> relaxed_key_grammar (trim s)" by simp
next
  assume a: "s \<noteq> [] \<and> s \<noteq> ''Unknown'' \<and> relaxed_key_grammar (trim s)"
  then have "match_keyPattern (trim s) \<noteq> None" by (simp add: relaxed_grammar_match)
  then have "parseKey (Some s) \<noteq> invalid_key"
    using a by (auto simp: parseKey_def invalid_key_def Let_def split: option.splits prod.splits)
  then show "isValid (parseKey (Some s))" using parseKey_invalid_or_valid [of "Some s"] by simp
qed

subsection \<open>Scores and binary64 arithmetic\<close>

lemma key_score_range: "score (calculateKeyCompatibility k1 k2) \<in> set key_scores"
  by (simp add: calculateKeyCompatibility_def Let_def key_scores_def poor_key_def
      split: option.splits)

lemma bpm_score_range: "score (calculateBpmCompatibility b1 b2) \<in> set bpm_scores"
  by (simp add: calculateBpmCompatibility_def Let_def bpm_scores_def)

lemma floor_rat_numeral:
  "\<lfloor>(numeral a :: rat) / numeral b\<rfloor> = numeral a div numeral b"
  using floor_divide_of_int_eq [of "numeral a" "numeral b", where ?'a = rat] by simp

lemma ceiling_rat_numeral:
  "\<lceil>(numeral a :: rat) / numeral b\<rceil> = - ((- numeral a) div numeral b)"
  using ceiling_divide_eq_div [of "numeral a" "numeral b", where ?'a = rat] by simp

lemma floor_rat_neg_numeral:
  "\<lfloor>- ((numeral a :: rat) / numeral b)\<rfloor> = (- numeral a) div numeral b"
  using floor_divide_of_int_eq [of "- numeral a" "numeral b", where ?'a = rat] by simp

lemmas fl_eval = fl_def ilog2_def pow2_def round_ties_even_def compute_bitlen Let_def
  floor_rat_numeral floor_rat_neg_numeral ceiling_rat_numeral

lemma c06: "fl (6 / 10) = 5404319552844595 / 9007199254740992"
  by (simp add: fl_eval)

lemma c04: "fl (4 / 10) = 3602879701896397 / 9007199254740992"
  by (simp add: fl_eval)

lemma c01: "fl (1 / 10) = 3602879701896397 / 36028797018963968"
  by (simp add: fl_eval)



lemma round_ties_even_of_int: "round_ties_even (of_int m) = m"
  by (simp add: round_ties_even_def)

lemma bitlen_le_53:
  assumes "\<bar>n\<bar> < 2 ^ 53"
  shows "bitlen \<bar>n\<bar> \<le> 53"
proof (cases "n = 0")
  case True
  then show ?thesis by simp
next
  case False
  then have "2 ^ nat (bitlen \<bar>n\<bar> - 1) \<le> \<bar>n\<bar>" using bitlen_bounds [of "\<bar>n\<bar>"] by simp
  with assms have lt: "(2::int) ^ nat (bitlen \<bar>n\<bar> - 1) < 2 ^ 53" by simp
  have "nat (bitlen \<bar>n\<bar> - 1) < 53"
    by (rule power_less_imp_less_exp [OF _ lt]) simp
  then show ?thesis by simp
qed

lemma fl_of_int:
  assumes "\<bar>n\<bar> < 2 ^ 53"
  shows "fl (of_int n) = of_int n"
proof (cases "n = 0")
  case True
  then show ?thesis by (simp add: fl_def)
next
  case False
  define e where "e = bitlen \<bar>n\<bar> - 1"
  have e: "e \<le> 52" using bitlen_le_53 [OF assms] by (simp add: e_def)
  have "1 \<le> \<bar>n\<bar>" using False by simp
  then have "(1::rat) \<le> \<bar>of_int n\<bar>" by (metis of_int_1_le_iff of_int_abs)
  then have i: "ilog2 \<bar>of_int n\<bar> = e"
    by (simp add: ilog2_def e_def flip: of_int_abs)
  have u: "pow2 (e - 52) = 1 / 2 ^ nat (52 - e)"
    using e by (cases "e = 52") (simp_all add: pow2_def)
  have "(of_int n :: rat) / pow2 (e - 52) = of_int (n * 2 ^ nat (52 - e))"
    by (simp add: u)
  then have "round_ties_even (of_int n / pow2 (e - 52)) = n * 2 ^ nat (52 - e)"
    by (simp only: round_ties_even_of_int)
  then show ?thesis
    using False by (simp add: fl_def i Let_def u)
qed

lemma c06': "fl (3 / 5) = 5404319552844595 / 9007199254740992"
  using c06 by simp

lemma c04': "fl (2 / 5) = 3602879701896397 / 9007199254740992"
  using c04 by simp

lemma key_product:
  assumes "k \<in> set key_scores"
  shows "fl (of_int k * fl (6 / 10)) = of_int (3 * k div 5)"
proof -
  from assms have "k = 0 \<or> k = 100 \<or> k = 95 \<or> k = 85 \<or> k = 80 \<or> k = 60 \<or> k = 40 \<or> k = 20"
    by (simp add: key_scores_def)
  then show ?thesis
    by (elim disjE) (simp_all add: c06' fl_eval)
qed

lemma bpm_product:
  assumes "b \<in> set bpm_scores"
  shows "fl (of_int b * fl (4 / 10)) = of_int (2 * b div 5)"
proof -
  from assms have "b = 0 \<or> b = 100 \<or> b = 90 \<or> b = 75 \<or> b = 95 \<or> b = 80 \<or> b = 60 \<or>
      b = 40 \<or> b = 20"
    by (simp add: bpm_scores_def)
  then show ?thesis
    by (elim disjE) (simp_all add: c04' fl_eval)
qed

lemma weightedScore_exact:
  assumes "k \<in> set key_scores" and "b \<in> set bpm_scores"
  shows "weightedScore k b = of_int (3 * k div 5 + 2 * b div 5)"
proof -
  have "\<bar>3 * k div 5 + 2 * b div 5\<bar> < 2 ^ 53"
    using assms by (auto simp: key_scores_def bpm_scores_def)
  then have f: "fl (of_int (3 * k div 5 + 2 * b div 5)) = of_int (3 * k div 5 + 2 * b div 5)"
    by (rule fl_of_int)
  have "weightedScore k b = fl (of_int (3 * k div 5) + of_int (2 * b div 5))"
    unfolding weightedScore_def key_product [OF assms(1)] bpm_product [OF assms(2)] ..
  also have "\<dots> = fl (of_int (3 * k div 5 + 2 * b div 5))" by simp
  finally show ?thesis using f by simp
qed

lemma Math_round_of_int: "Math_round (of_int n) = n"
proof -
  have "\<lfloor>(of_int n :: rat) + 1 / 2\<rfloor> = n" by (simp add: floor_eq_iff)
  then show ?thesis by (simp add: Math_round_def)
qed

lemma tierOf_of_int: "tierOf (of_int n) = specified_tier n"
proof -
  have "(of_int m :: rat) \<le> of_int n \<longleftrightarrow> m \<le> n" for m by simp
  from this [of 90] this [of 75] this [of 60] this [of 40] this [of 25]
  show ?thesis by (simp add: tierOf_def specified_tier_def)
qed

lemma exact_weighting:
  assumes "k \<in> set key_scores" and "b \<in> set bpm_scores"
  shows "(of_int k :: rat) * (6 / 10) + of_int b * (4 / 10) = of_int (3 * k div 5 + 2 * b div 5)"
proof -
  from assms(1) have "5 dvd k" by (auto simp: key_scores_def)
  then obtain k' where k: "k = 5 * k'" ..
  from assms(2) have "5 dvd b" by (auto simp: bpm_scores_def)
  then obtain b' where b: "b = 5 * b'" ..
  show ?thesis by (simp add: k b)
qed

lemma overall_fields:
  "overall_score (overall (calculateOverallCompatibility t1 t2)) =
     Math_round (weightedScore
       (score (calculateKeyCompatibility (track_key t1) (track_key t2)))
       (score (calculateBpmCompatibility (track_bpm t1) (track_bpm t2))))"
  "overall_compatibility (overall (calculateOverallCompatibility t1 t2)) =
     tierOf (weightedScore
       (score (calculateKeyCompatibility (track_key t1) (track_key t2)))
       (score (calculateBpmCompatibility (track_bpm t1) (track_bpm t2))))"
  "description (overall (calculateOverallCompatibility t1 t2)) =
     getCompatibilityDescription
       (overall_compatibility (overall (calculateOverallCompatibility t1 t2)))"
  "key_compat (calculateOverallCompatibility t1 t2) =
     calculateKeyCompatibility (track_key t1) (track_key t2)"
  "bpm_compat (calculateOverallCompatibility t1 t2) =
     calculateBpmCompatibility (track_bpm t1) (track_bpm t2)"
  "mixing_advice (calculateOverallCompatibility t1 t2) =
     getMixingAdvice (calculateKeyCompatibility (track_key t1) (track_key t2))
       (calculateBpmCompatibility (track_bpm t1) (track_bpm t2))"
  by (simp_all add: calculateOverallCompatibility_def Let_def)

lemma overall_score_exact:
  "overall_score (overall (calculateOverallCompatibility t1 t2)) =
     3 * score (calculateKeyCompatibility (track_key t1) (track_key t2)) div 5 +
     2 * score (calculateBpmCompatibility (track_bpm t1) (track_bpm t2)) div 5"
  using weightedScore_exact [OF key_score_range bpm_score_range]
  by (simp only: overall_fields Math_round_of_int)

text \<open>The error of rounding to a significand of 53 bits.\<close>

lemma pow2_powi: "pow2 e = 2 powi e"
  by (simp add: pow2_def power_int_def inverse_eq_divide power_one_over)

lemma pow2_pos: "0 < pow2 e"
  by (simp add: pow2_powi)

lemma round_ties_even_error: "\<bar>of_int (round_ties_even z) - z\<bar> \<le> 1 / 2"
proof -
  have 1: "of_int \<lfloor>z\<rfloor> \<le> z" by simp
  have 2: "z < of_int \<lfloor>z\<rfloor> + 1" by linarith
  show ?thesis
  proof (cases "z - of_int \<lfloor>z\<rfloor> < 1 / 2")
    case True
    then show ?thesis using 1 by (simp add: round_ties_even_def Let_def)
  next
    case False
    then have "\<bar>of_int (\<lfloor>z\<rfloor> + 1) - z\<bar> \<le> 1 / 2" using 2 by simp
    moreover have "\<bar>of_int \<lfloor>z\<rfloor> - z\<bar> \<le> 1 / 2" if "\<not> 1 / 2 < z - of_int \<lfloor>z\<rfloor>"
      using that 1 by simp
    ultimately show ?thesis using False by (simp add: round_ties_even_def Let_def)
  qed
qed


lemma ilog2_le:
  assumes "0 < a"
  shows "pow2 (ilog2 a) \<le> a"
proof (cases "1 \<le> a")
  case True
  then have n: "0 < \<lfloor>a\<rfloor>" by linarith
  then have b: "1 \<le> bitlen \<lfloor>a\<rfloor>" by (simp add: bitlen_alt_def)
  from bitlen_bounds [OF n] have "2 ^ nat (bitlen \<lfloor>a\<rfloor> - 1) \<le> \<lfloor>a\<rfloor>" by simp
  then have "(of_int (2 ^ nat (bitlen \<lfloor>a\<rfloor> - 1)) :: rat) \<le> of_int \<lfloor>a\<rfloor>"
    by (simp only: of_int_le_iff)
  also have "\<dots> \<le> a" by simp
  finally have "(2::rat) ^ nat (bitlen \<lfloor>a\<rfloor> - 1) \<le> a" by simp
  then show ?thesis using True b by (simp add: ilog2_def pow2_def)
next
  case False
  then have a1: "1 < 1 / a" using assms by simp
  define n where "n = \<lceil>1 / a\<rceil> - 1"
  have "1 < \<lceil>1 / a\<rceil>" using a1 by linarith
  then have n: "0 < n" by (simp add: n_def)
  have "n < 2 ^ nat (bitlen n)" using bitlen_bounds [OF n] by simp
  then have "n + 1 \<le> 2 ^ nat (bitlen n)" by simp
  then have le: "(of_int (n + 1) :: rat) \<le> of_int (2 ^ nat (bitlen n))"
    by (simp only: of_int_le_iff)
  have "1 / a \<le> of_int \<lceil>1 / a\<rceil>" by simp
  also have "\<dots> = of_int (n + 1)" by (simp add: n_def)
  also note le
  finally have "1 / a \<le> 2 ^ nat (bitlen n)" by simp
  then have "1 / 2 ^ nat (bitlen n) \<le> a"
    using assms by (simp add: field_simps)
  moreover have "0 < bitlen n" using n by (simp add: bitlen_alt_def)
  ultimately show ?thesis using False by (simp add: ilog2_def pow2_def n_def)
qed


lemma pow2_shift: "pow2 (e - 52) = pow2 e / 2 ^ 52"
  by (simp add: pow2_powi power_int_diff)

lemma fl_error: "\<bar>fl x - x\<bar> \<le> \<bar>x\<bar> / 2 ^ 53"
proof (cases "x = 0")
  case True
  then show ?thesis by (simp add: fl_def)
next
  case False
  define u where "u = pow2 (ilog2 \<bar>x\<bar> - 52)"
  have u: "0 < u" by (simp add: u_def pow2_pos)
  have f: "fl x = of_int (round_ties_even (x / u)) * u"
    using False by (simp add: fl_def u_def Let_def)
  have "fl x - x = (of_int (round_ties_even (x / u)) - x / u) * u"
    using u by (simp add: f field_simps)
  then have "\<bar>fl x - x\<bar> = \<bar>of_int (round_ties_even (x / u)) - x / u\<bar> * u"
    using u by (simp add: abs_mult)
  also have "\<dots> \<le> 1 / 2 * u"
    using round_ties_even_error [of "x / u"] u by (simp only: mult_le_cancel_right_pos)
  also have "\<dots> = pow2 (ilog2 \<bar>x\<bar>) / 2 ^ 53"
    by (simp add: u_def pow2_shift)
  also have "\<dots> \<le> \<bar>x\<bar> / 2 ^ 53"
    using ilog2_le [of "\<bar>x\<bar>"] False by (simp add: divide_right_mono)
  finally show ?thesis .
qed

text \<open>
  The number value of a real in the normal range of binary64, and the operations on
  finite numbers.
\<close>

lemma pow2_mono: "a \<le> b \<Longrightarrow> pow2 a \<le> pow2 b"
  by (simp add: pow2_powi power_int_increasing)

lemma pow2_double: "pow2 (e + 1) = 2 * pow2 e"
  by (simp add: pow2_powi power_int_add)

lemma binary64_zero: "binary64 0 = Finite 0"
proof -
  have "\<not> pow2 1024 \<le> 0" using pow2_pos [of 1024] by simp
  moreover have "round_ties_even 0 = 0" using round_ties_even_of_int [of 0] by simp
  ultimately show ?thesis by (simp add: binary64_def pow2_pos)
qed

lemma fl_lower: "\<bar>x\<bar> - \<bar>x\<bar> / 2 ^ 53 \<le> \<bar>fl x\<bar>"
  using fl_error [of x] by linarith

lemma fl_upper: "\<bar>fl x\<bar> \<le> \<bar>x\<bar> + \<bar>x\<bar> / 2 ^ 53"
  using fl_error [of x] by linarith

lemma fl_nonzero:
  assumes "x \<noteq> 0"
  shows "fl x \<noteq> 0"
proof -
  have "\<bar>x\<bar> / 2 ^ 53 < \<bar>x\<bar>" using assms by simp
  with fl_lower [of x] show ?thesis by auto
qed

lemma binary64_normal:
  assumes lo: "pow2 (- 1022) \<le> \<bar>x\<bar>" and hi: "\<bar>x\<bar> \<le> pow2 1023"
  shows "binary64 x = Finite (fl x)"
proof -
  have x: "x \<noteq> 0" using lo pow2_pos [of "- 1022"] by auto
  have "\<bar>x\<bar> / 2 ^ 53 < \<bar>x\<bar>" using x by simp
  with fl_upper [of x] have "\<bar>fl x\<bar> < 2 * \<bar>x\<bar>" by linarith
  also have "\<dots> \<le> 2 * pow2 1023" using hi by simp
  also have "\<dots> = pow2 1024" using pow2_double [of 1023] by simp
  finally have b: "\<bar>fl x\<bar> < pow2 1024" .
  then have "\<not> pow2 1024 \<le> fl x" "\<not> fl x \<le> - pow2 1024" by linarith+
  then show ?thesis using lo fl_nonzero [OF x] by (simp add: binary64_def)
qed

lemma binary64_fl:
  assumes "1 / 2 ^ 10 \<le> \<bar>x\<bar>" and "\<bar>x\<bar> \<le> 2 ^ 60"
  shows "binary64 x = Finite (fl x)"
proof (rule binary64_normal)
  have "pow2 (- 1022) \<le> pow2 (- 10)" by (rule pow2_mono) simp
  also have "pow2 (- 10) = 1 / 2 ^ 10" by (simp add: pow2_def)
  finally show "pow2 (- 1022) \<le> \<bar>x\<bar>" using assms(1) by simp
  have "pow2 60 \<le> pow2 1023" by (rule pow2_mono) simp
  moreover have "pow2 60 = 2 ^ 60" by (simp add: pow2_def)
  ultimately show "\<bar>x\<bar> \<le> pow2 1023" using assms(2) by simp
qed

lemma binary64_of_int:
  assumes "\<bar>n\<bar> < 2 ^ 53"
  shows "binary64 (of_int n) = Finite (of_int n)"
proof (cases "n = 0")
  case True
  then show ?thesis by (simp add: binary64_zero)
next
  case False
  then have 1: "(1::rat) \<le> \<bar>of_int n\<bar>" by (metis abs_ge_zero linorder_not_less of_int_abs of_int_1_le_iff zero_less_abs_iff int_one_le_iff_zero_less)
  have "(of_int \<bar>n\<bar> :: rat) \<le> of_int (2 ^ 53)" using assms by (simp only: of_int_le_iff)
  then have 2: "\<bar>of_int n :: rat\<bar> \<le> 2 ^ 60" by simp
  have "binary64 (of_int n) = Finite (fl (of_int n))"
    using 1 2 by (intro binary64_fl) simp_all
  then show ?thesis by (simp add: fl_of_int [OF assms])
qed

lemma number_subtract_Finite: "number_subtract (Finite a) (Finite b) = binary64 (a - b)"
  by (simp add: number_subtract_def number_add_def isNaN_def is_infinite_def)

lemma number_lessThan_Finite: "number_lessThan (Finite a) (Finite b) \<longleftrightarrow> a < b"
  by (auto simp: number_lessThan_def isNaN_def is_zero_def)

lemma number_lessEq_Finite: "number_lessEq (Finite a) (Finite b) \<longleftrightarrow> a \<le> b"
  by (auto simp: number_lessEq_def number_lessThan_Finite isNaN_def)

lemma number_equal_Finite: "number_equal (Finite a) (Finite b) \<longleftrightarrow> a = b"
  by (auto simp: number_equal_def isNaN_def is_zero_def)

lemma number_divide_Finite:
  "a \<noteq> 0 \<Longrightarrow> b \<noteq> 0 \<Longrightarrow> number_divide (Finite a) (Finite b) = binary64 (a / b)"
  by (simp add: number_divide_def isNaN_def is_infinite_def is_zero_def)

text \<open>Evaluation of the classifiers on the tracks of the examples.\<close>

lemmas parseInt_eval =
  parseInt_def trim_start_def is_space_def is_digit_def digit_value_def Let_def
  binary64_fl fl_eval

lemma parseInt_examples:
  "parseInt (Some ''120'') = Finite 120" "parseInt (Some ''122'') = Finite 122"
  "parseInt (Some ''123'') = Finite 123" "parseInt (Some ''60'') = Finite 60"
  "parseInt (Some ''180'') = Finite 180" "parseInt (Some ''fast'') = NaN"
  "parseInt None = NaN"
  by (simp_all add: parseInt_eval)

lemmas number_eval =
  number_subtract_Finite number_lessThan_Finite number_lessEq_Finite number_equal_Finite
  number_divide_Finite isNaN_def within_tenth_def binary64_fl binary64_zero fl_eval

lemmas toString_eval =
  number_toString_def positive_text_def decimal_exponent_def shortest_digits.simps
  digits_at_def rounds_to_def pow10_def number_text.simps char_of_eq_iff

lemmas bpm_eval =
  calculateBpmCompatibility_def parseInt_examples number_eval toString_eval

lemma bpm_examples:
  "calculateBpmCompatibility (Some ''120'') (Some ''120'') =
     \<lparr>compatibility = ''perfect'', score = 100, reason = ''Exact BPM match''\<rparr>"
  "calculateBpmCompatibility (Some ''120'') (Some ''122'') =
     \<lparr>compatibility = ''excellent'', score = 95,
      reason = ''Within 5 BPM (2 BPM difference)''\<rparr>"
  "calculateBpmCompatibility (Some ''120'') (Some ''123'') =
     \<lparr>compatibility = ''excellent'', score = 95,
      reason = ''Within 5 BPM (3 BPM difference)''\<rparr>"
  "calculateBpmCompatibility (Some ''120'') (Some ''60'') =
     \<lparr>compatibility = ''excellent'', score = 90, reason = ''Half/double BPM relationship''\<rparr>"
  "calculateBpmCompatibility (Some ''120'') (Some ''180'') =
     \<lparr>compatibility = ''good'', score = 75, reason = ''3/2 BPM relationship''\<rparr>"
  "calculateBpmCompatibility (Some ''120'') (Some ''fast'') =
     \<lparr>compatibility = ''unknown'', score = 0, reason = ''Invalid BPM data''\<rparr>"
  by (simp_all add: bpm_eval)

lemmas keyCompat_eval =
  calculateKeyCompatibility_def parse_examples parse_C_major parse_A_minor parse_F_sharp_major
  major_result_def minor_result_def invalid_key_def circleOfFifths_def areRelativeKeys_def
  relativePairs_def areParallelKeys_def calculateCircleDistance_def poor_key_def Let_def

lemma parse_not_a_key: "parseKey (Some ''H minor'') = invalid_key" "parseKey None = invalid_key"
  by (simp_all add: parseKey_def trim_def is_space_def is_note_letter_def toUpperCase_char_def)

lemma keyCompat_examples:
  "calculateKeyCompatibility (Some ''C Major'') (Some ''C Major'') =
     \<lparr>compatibility = ''perfect'', score = 100, reason = ''Same key''\<rparr>"
  "calculateKeyCompatibility (Some ''C Major'') (Some ''Am'') =
     \<lparr>compatibility = ''excellent'', score = 95, reason = ''Relative major/minor keys''\<rparr>"
  "calculateKeyCompatibility (Some ''C Major'') (Some ''G Major'') =
     \<lparr>compatibility = ''good'', score = 80, reason = ''Adjacent keys in circle of fifths''\<rparr>"
  "calculateKeyCompatibility (Some ''C Major'') (Some ''F# Major'') =
     \<lparr>compatibility = ''poor'', score = 20, reason = ''Keys are not harmonically related''\<rparr>"
  "calculateKeyCompatibility (Some ''C Major'') (Some ''H minor'') =
     \<lparr>compatibility = ''unknown'', score = 0, reason = ''Invalid key data''\<rparr>"
  "calculateKeyCompatibility (Some ''C Major'') None =
     \<lparr>compatibility = ''unknown'', score = 0, reason = ''Invalid key data''\<rparr>"
  by (simp_all add: keyCompat_eval parse_not_a_key)

lemma weighted_bounds:
  fixes k b :: int
  assumes "0 \<le> k" "k \<le> 100" "0 \<le> b" "b \<le> 100"
  shows "0 \<le> 3 * k div 5 + 2 * b div 5 \<and> 3 * k div 5 + 2 * b div 5 \<le> 100"
proof -
  have "0 \<le> 3 * k div 5" "3 * k div 5 \<le> 60" using assms(1,2) by simp_all
  moreover have "0 \<le> 2 * b div 5" "2 * b div 5 \<le> 40" using assms(3,4) by simp_all
  ultimately show ?thesis by linarith
qed

lemma overall_score_bounds:
  "0 \<le> overall_score (overall (calculateOverallCompatibility t1 t2)) \<and>
   overall_score (overall (calculateOverallCompatibility t1 t2)) \<le> 100"
proof -
  let ?k = "score (calculateKeyCompatibility (track_key t1) (track_key t2))"
  let ?b = "score (calculateBpmCompatibility (track_bpm t1) (track_bpm t2))"
  have k: "0 \<le> ?k" "?k \<le> 100" using key_score_range [of "track_key t1" "track_key t2"]
    by (auto simp: key_scores_def)
  have b: "0 \<le> ?b" "?b \<le> 100" using bpm_score_range [of "track_bpm t1" "track_bpm t2"]
    by (auto simp: bpm_scores_def)
  from weighted_bounds [OF k b] show ?thesis unfolding overall_score_exact .
qed

lemma bpm_unparseable:
  "isNaN (parseInt b1) \<or> isNaN (parseInt b2) \<Longrightarrow>
   calculateBpmCompatibility b1 b2 =
     \<lparr>compatibility = ''unknown'', score = 0, reason = ''Invalid BPM data''\<rparr>"
  by (auto simp: calculateBpmCompatibility_def)

lemma parseInt_200_100:
  "parseInt (Some ''200'') = Finite 200" "parseInt (Some ''100'') = Finite 100"
  by (simp_all add: parseInt_eval)

text \<open>
  Tempi beyond \<open>2 ^ 53\<close>: \<open>parseInt\<close> rounds the integer that is written, so two
  strings that differ in their last digit can be the same tempo.
\<close>

lemma parseInt_large:
  "parseInt (Some ''2100000000000002'') = Finite 2100000000000002"
  "parseInt (Some ''1000000000000001'') = Finite 1000000000000001"
  "parseInt (Some ''9007199254740993'') = Finite 9007199254740992"
  "parseInt (Some ''9007199254740992'') = Finite 9007199254740992"
  by (simp_all add: parseInt_eval)

lemma bpm_beyond_2_53:
  "calculateBpmCompatibility (Some ''9007199254740993'') (Some ''9007199254740992'') =
     \<lparr>compatibility = ''perfect'', score = 100, reason = ''Exact BPM match''\<rparr>"
  by (simp add: calculateBpmCompatibility_def parseInt_large number_eval)

lemma number_toString_example: "number_toString (Finite 1100000000000001) = ''1100000000000001''"
  by (simp add: toString_eval number_eval)

text \<open>
  The quotient of two tempi in exact arithmetic and in binary64, and the test on the
  difference.
\<close>

lemma binary64_error:
  assumes hi: "\<bar>x\<bar> \<le> pow2 1023"
  obtains w where "Math_abs (binary64 x) = Finite \<bar>w\<bar>"
    and "\<bar>w - x\<bar> \<le> \<bar>x\<bar> / 2 ^ 53 + pow2 (- 1075)"
proof (cases "\<bar>x\<bar> < pow2 (- 1022)")
  case True
  define u where "u = pow2 (- 1074)"
  define y where "y = of_int (round_ties_even (x / u)) * u"
  have u: "0 < u" by (simp add: u_def pow2_pos)
  have h: "u = 2 * pow2 (- 1075)" using pow2_double [of "- 1075"] by (simp add: u_def)
  have "y - x = (of_int (round_ties_even (x / u)) - x / u) * u"
    using u by (simp add: y_def field_simps)
  then have "\<bar>y - x\<bar> = \<bar>of_int (round_ties_even (x / u)) - x / u\<bar> * u"
    using u by (simp add: abs_mult)
  also have "\<dots> \<le> 1 / 2 * u"
    using round_ties_even_error [of "x / u"] u by (simp only: mult_le_cancel_right_pos)
  finally have e: "\<bar>y - x\<bar> \<le> pow2 (- 1075)" by (simp add: h)
  have "pow2 (- 1075) \<le> pow2 1023" "pow2 (- 1022) \<le> pow2 1023" by (rule pow2_mono, simp)+
  with e True have "\<bar>y\<bar> < 2 * pow2 1023" by linarith
  also have "\<dots> = pow2 1024" using pow2_double [of 1023] by simp
  finally have "\<not> pow2 1024 \<le> y" "\<not> y \<le> - pow2 1024" by linarith+
  then have "binary64 x = (if y = 0 \<and> x < 0 then NegZero else Finite y)"
    using True by (simp add: binary64_def y_def u_def)
  then have "Math_abs (binary64 x) = Finite \<bar>y\<bar>" by simp
  moreover have "\<bar>y - x\<bar> \<le> \<bar>x\<bar> / 2 ^ 53 + pow2 (- 1075)" using e by (simp add: add_increasing)
  ultimately show ?thesis by (rule that)
next
  case False
  then have "binary64 x = Finite (fl x)" using hi by (intro binary64_normal) simp_all
  then have "Math_abs (binary64 x) = Finite \<bar>fl x\<bar>" by simp
  moreover have "\<bar>fl x - x\<bar> \<le> \<bar>x\<bar> / 2 ^ 53 + pow2 (- 1075)"
    using fl_error [of x] pow2_pos [of "- 1075"] by linarith
  ultimately show ?thesis by (rule that)
qed

lemma binary64_tenth: "binary64 (1 / 10) = Finite (3602879701896397 / 36028797018963968)"
  by (simp add: binary64_fl fl_eval)

lemma exact_ratio_within_tenth:
  fixes M m :: int
  assumes m0: "m \<noteq> 0" and mB: "\<bar>m\<bar> \<le> 10 ^ 14"
    and near: "\<bar>of_int M / of_int m - 2\<bar> < (1 / 10 :: rat)"
  shows "within_tenth (number_divide (Finite (of_int M)) (Finite (of_int m))) (Finite 2)"
proof -
  define r :: rat where "r = of_int M / of_int m"
  define K :: rat where "K = 1 / 10 - 1 / 10 ^ 15 + 21 / (10 * 2 ^ 53)"
  have mpos: "(0::rat) < of_int \<bar>m\<bar>" using m0 by simp
  have "r - 2 = of_int (M - 2 * m) / of_int m" using m0 by (simp add: r_def field_simps)
  then have d: "\<bar>r - 2\<bar> = of_int \<bar>M - 2 * m\<bar> / of_int \<bar>m\<bar>"
    by (simp only: abs_divide of_int_abs)
  with near have "of_int \<bar>M - 2 * m\<bar> / of_int \<bar>m\<bar> < (1 / 10 :: rat)" by (simp add: r_def)
  then have "(of_int (10 * \<bar>M - 2 * m\<bar>) :: rat) < of_int \<bar>m\<bar>"
    using mpos by (simp add: field_simps)
  then have "10 * \<bar>M - 2 * m\<bar> < \<bar>m\<bar>" by (simp only: of_int_less_iff)
  then have "10 * \<bar>M - 2 * m\<bar> \<le> \<bar>m\<bar> - 1" by simp
  then have "(of_int (10 * \<bar>M - 2 * m\<bar>) :: rat) \<le> of_int (\<bar>m\<bar> - 1)"
    by (simp only: of_int_le_iff)
  then have "\<bar>r - 2\<bar> \<le> (of_int \<bar>m\<bar> - 1) / (10 * of_int \<bar>m\<bar>)"
    using mpos by (simp add: d field_simps)
  also have "\<dots> = 1 / 10 - 1 / (10 * of_int \<bar>m\<bar>)"
    using mpos by (simp add: field_simps)
  also have "\<dots> \<le> 1 / 10 - 1 / 10 ^ 15"
  proof -
    have "(of_int \<bar>m\<bar> :: rat) \<le> of_int (10 ^ 14)" using mB by (simp only: of_int_le_iff)
    then have "10 * (of_int \<bar>m\<bar> :: rat) \<le> 10 ^ 15" by simp
    then have "1 / 10 ^ 15 \<le> 1 / (10 * (of_int \<bar>m\<bar> :: rat))"
      using mpos by (intro divide_left_mono) simp_all
    then show ?thesis by simp
  qed
  finally have gap: "\<bar>r - 2\<bar> \<le> 1 / 10 - 1 / 10 ^ 15" .
  have "(1 / 10 - 1 / 10 ^ 15 :: rat) \<le> 1 / 10" by simp
  with gap have g: "\<bar>r - 2\<bar> \<le> 1 / 10" by (rule order_trans)
  then have rb: "\<bar>r\<bar> \<le> 21 / 10" and rl: "19 / 10 \<le> \<bar>r\<bar>" by linarith+
  have "\<bar>fl r - r\<bar> \<le> \<bar>r\<bar> / 2 ^ 53" by (rule fl_error)
  also have "\<dots> \<le> (21 / 10) / 2 ^ 53" using rb by (simp add: divide_right_mono)
  finally have e1: "\<bar>fl r - r\<bar> \<le> 21 / (10 * 2 ^ 53)" by simp
  have "\<bar>fl r - 2\<bar> \<le> \<bar>r - 2\<bar> + \<bar>fl r - r\<bar>" by simp
  with gap e1 have y: "\<bar>fl r - 2\<bar> \<le> K" by (simp add: K_def)
  have K1: "K \<le> 1" by (simp add: K_def)
  have "pow2 0 \<le> pow2 1023" by (rule pow2_mono) simp
  then have "1 \<le> pow2 1023" by (simp add: pow2_def)
  with y K1 have "\<bar>fl r - 2\<bar> \<le> pow2 1023" by linarith
  then obtain w where w: "Math_abs (binary64 (fl r - 2)) = Finite \<bar>w\<bar>"
    and ew: "\<bar>w - (fl r - 2)\<bar> \<le> \<bar>fl r - 2\<bar> / 2 ^ 53 + pow2 (- 1075)"
    by (rule binary64_error)
  have "pow2 (- 1075) \<le> pow2 (- 64)" by (rule pow2_mono) simp
  then have t: "pow2 (- 1075) \<le> 1 / 2 ^ 64" by (simp add: pow2_def)
  have "\<bar>fl r - 2\<bar> / 2 ^ 53 \<le> K / 2 ^ 53" using y by (simp add: divide_right_mono)
  with ew t have "\<bar>w - (fl r - 2)\<bar> \<le> K / 2 ^ 53 + 1 / 2 ^ 64" by linarith
  with y have "\<bar>w\<bar> \<le> K + (K / 2 ^ 53 + 1 / 2 ^ 64)" by linarith
  also have "\<dots> < 3602879701896397 / 36028797018963968" by (simp add: K_def)
  finally have lt: "\<bar>w\<bar> < 3602879701896397 / 36028797018963968" .
  have r0: "r \<noteq> 0" using rl by auto
  then have M0: "(of_int M :: rat) \<noteq> 0" by (auto simp: r_def)
  have "1 / 2 ^ 10 \<le> \<bar>r\<bar>" "\<bar>r\<bar> \<le> 2 ^ 60" using rl rb by simp_all
  then have "binary64 r = Finite (fl r)" by (rule binary64_fl)
  then have "number_divide (Finite (of_int M)) (Finite (of_int m)) = Finite (fl r)"
    using M0 m0 by (simp add: number_divide_Finite r_def)
  then show ?thesis
    using w lt
    by (simp add: within_tenth_def number_subtract_Finite binary64_tenth number_lessThan_Finite)
qed

lemma difference_not_zero:
  fixes x y :: int
  assumes "x \<noteq> y"
  shows "\<not> number_equal (Math_abs (number_subtract (Finite (of_int x)) (Finite (of_int y))))
    (Finite 0)"
proof -
  define z :: rat where "z = of_int x - of_int y"
  have "z = of_int (x - y)" by (simp add: z_def)
  moreover have "1 \<le> \<bar>x - y\<bar>" using assms by simp
  ultimately have z1: "1 \<le> \<bar>z\<bar>" by (metis of_int_1_le_iff of_int_abs)
  have "pow2 (- 1022) \<le> pow2 0" by (rule pow2_mono) simp
  then have "pow2 (- 1022) \<le> 1" by (simp add: pow2_def)
  with z1 have n: "\<not> \<bar>z\<bar> < pow2 (- 1022)" by linarith
  have "z \<noteq> 0" using z1 by auto
  then have "fl z \<noteq> 0" by (rule fl_nonzero)
  then have "binary64 z = Infinity \<or> binary64 z = NegInfinity \<or>
      (\<exists>v. v \<noteq> 0 \<and> binary64 z = Finite v)"
    using n by (simp add: binary64_def Let_def)
  then show ?thesis
    by (auto simp: number_subtract_Finite number_equal_def isNaN_def is_zero_def
        simp flip: z_def)
qed

lemma half_double_branch:
  fixes x y :: int
  assumes p: "parseInt a = Finite (of_int x)" "parseInt b = Finite (of_int y)" "x \<noteq> y"
    and r: "within_tenth (number_divide (Finite (of_int (max x y))) (Finite (of_int (min x y))))
        (Finite 2)"
  shows "calculateBpmCompatibility a b =
        \<lparr>compatibility = ''excellent'', score = 90,
         reason = ''Half/double BPM relationship''\<rparr>"
proof -
  have "within_tenth (number_divide (Finite (of_int x)) (Finite (of_int y))) (Finite 2) \<or>
      within_tenth (number_divide (Finite (of_int y)) (Finite (of_int x))) (Finite 2)"
    using r by (cases "x \<le> y") (simp_all add: max_def min_def)
  with p(1,2) difference_not_zero [OF p(3)] show ?thesis
    by (simp add: calculateBpmCompatibility_def Let_def isNaN_def)
qed

subsection \<open>The half/double rule of the tempo classifier\<close>

text \<open>
  Claim C4 says that two tempo strings that parse to different integers whose quotient,
  the larger by the smaller, is within 0.1 of 2 are classified \<open>excellent\<close>, 90,
  \<open>Half/double BPM relationship\<close>. The program makes the comparison on the quotient
  rounded to binary64. The tempi 2100000000000002 and 1000000000000001 are parsed
  exactly and their quotient is less than 2.1, but it rounds to the binary64 value next
  above 2.1, the test \<^verbatim>\<open>Math.abs(ratio - 2) < 0.1\<close> fails, and the pair is classified by
  its absolute difference.
\<close>

theorem half_double_counterexample:
  "parseInt (Some ''2100000000000002'') = Finite 2100000000000002 \<and>
   parseInt (Some ''1000000000000001'') = Finite 1000000000000001 \<and>
   \<bar>(2100000000000002 :: rat) / 1000000000000001 - 2\<bar> < 1 / 10 \<and>
   calculateBpmCompatibility (Some ''2100000000000002'') (Some ''1000000000000001'') =
     \<lparr>compatibility = ''poor'', score = 20,
      reason = ''Large BPM difference (1100000000000001 BPM)''\<rparr>"
  by (simp add: calculateBpmCompatibility_def parseInt_large number_eval number_toString_example)

text \<open>
  Claim C4 as amended. For tempo strings that parse to different integers \<open>x\<close> and \<open>y\<close>
  of which the smaller is not zero and is at most \<open>10 ^ 14\<close> in magnitude, if the
  quotient of the larger by the smaller is within 0.1 of 2 then
  \<open>calculateBpmCompatibility\<close> returns \<open>excellent\<close>, 90, \<open>Half/double BPM relationship\<close>,
  whatever the absolute difference is: the ratio rule comes before the difference
  tiers. For tempi of any magnitude the same holds with the comparison as the program
  computes it, \<^verbatim>\<open>Math.abs(ratio - 2) < 0.1\<close> in binary64 arithmetic on the quotient of
  the larger by the smaller. In particular the tempi 120 and 60 give that result, whose
  reason contains \<open>Half/double\<close>.
\<close>

theorem half_double_rule_first:
  "(parseInt a = Finite (of_int x) \<and> parseInt b = Finite (of_int y) \<and> x \<noteq> y \<and>
    min x y \<noteq> 0 \<and> \<bar>min x y\<bar> \<le> 10 ^ 14 \<and>
    \<bar>of_int (max x y) / of_int (min x y) - 2\<bar> < (1 / 10 :: rat) \<longrightarrow>
      calculateBpmCompatibility a b =
        \<lparr>compatibility = ''excellent'', score = 90,
         reason = ''Half/double BPM relationship''\<rparr>) \<and>
   (parseInt a = Finite (of_int x) \<and> parseInt b = Finite (of_int y) \<and> x \<noteq> y \<and>
    within_tenth (number_divide (Finite (of_int (max x y))) (Finite (of_int (min x y))))
      (Finite 2) \<longrightarrow>
      calculateBpmCompatibility a b =
        \<lparr>compatibility = ''excellent'', score = 90,
         reason = ''Half/double BPM relationship''\<rparr>) \<and>
   calculateBpmCompatibility (Some ''120'') (Some ''60'') =
     \<lparr>compatibility = ''excellent'', score = 90, reason = ''Half/double BPM relationship''\<rparr> \<and>
   includes_text ''Half/double BPM relationship'' ''Half/double''"
proof -
  have 1: "calculateBpmCompatibility a b =
        \<lparr>compatibility = ''excellent'', score = 90,
         reason = ''Half/double BPM relationship''\<rparr>"
    if p: "parseInt a = Finite (of_int x)" "parseInt b = Finite (of_int y)" "x \<noteq> y"
      and m: "min x y \<noteq> 0" "\<bar>min x y\<bar> \<le> 10 ^ 14"
        "\<bar>of_int (max x y) / of_int (min x y) - 2\<bar> < (1 / 10 :: rat)"
    using p exact_ratio_within_tenth [OF m] by (rule half_double_branch)
  have 2: "calculateBpmCompatibility a b =
        \<lparr>compatibility = ''excellent'', score = 90,
         reason = ''Half/double BPM relationship''\<rparr>"
    if "parseInt a = Finite (of_int x)" "parseInt b = Finite (of_int y)" "x \<noteq> y"
      "within_tenth (number_divide (Finite (of_int (max x y))) (Finite (of_int (min x y))))
        (Finite 2)"
    using that by (rule half_double_branch)
  have 3: "includes_text ''Half/double BPM relationship'' ''Half/double''"
    by (simp add: includes_text_def)
  from 1 2 3 show ?thesis by (simp add: bpm_examples)
qed

theorem half_double_rule_first_witness:
  "parseInt (Some ''100'') = Finite 100 \<and> parseInt (Some ''200'') = Finite 200 \<and>
   min 100 200 \<noteq> (0 :: int) \<and> \<bar>min 100 200 :: int\<bar> \<le> 10 ^ 14 \<and>
   \<bar>of_int (max 100 200) / of_int (min 100 200) - 2\<bar> < (1 / 10 :: rat) \<and>
   within_tenth (number_divide (Finite (of_int (max 100 200))) (Finite (of_int (min 100 200))))
     (Finite 2) \<and>
   number_lessThan (Finite 40) (Math_abs (number_subtract (Finite 100) (Finite 200))) \<and>
   calculateBpmCompatibility (Some ''100'') (Some ''200'') =
     \<lparr>compatibility = ''excellent'', score = 90, reason = ''Half/double BPM relationship''\<rparr>"
proof -
  have w: "within_tenth (number_divide (Finite (of_int (max 100 200)))
      (Finite (of_int (min 100 200)))) (Finite 2)"
    by (simp add: number_eval)
  have d: "number_lessThan (Finite 40) (Math_abs (number_subtract (Finite 100) (Finite 200)))"
    by (simp add: number_eval)
  from w d half_double_rule_first [of "Some ''100''" 100 "Some ''200''" 200] show ?thesis
    by (simp add: parseInt_200_100)
qed

subsection \<open>The overall tier and the rounded score\<close>

text \<open>
  Claim C2. For every pair of tracks the reported overall score is the weighted sum
  \<open>keyScore * 0.6 + tempoScore * 0.4\<close> rounded, in binary64 arithmetic as in exact
  arithmetic, and the overall tier label is the tier that the thresholds (90, 75, 60,
  40, 25) give for that reported integer score. The program takes the label from the
  sum before rounding; for the scores the two classifiers can return the sum is an
  integer, so both agree.
\<close>

theorem overall_label_from_rounded_score:
  "let v = calculateOverallCompatibility track1 track2;
       keyScore = score (key_compat v);
       tempoScore = score (bpm_compat v)
   in overall_score (overall v) = Math_round (weightedScore keyScore tempoScore) \<and>
      overall_score (overall v) =
        Math_round (of_int keyScore * (6 / 10) + of_int tempoScore * (4 / 10)) \<and>
      overall_compatibility (overall v) = specified_tier (overall_score (overall v))"
proof -
  let ?k = "score (calculateKeyCompatibility (track_key track1) (track_key track2))"
  let ?b = "score (calculateBpmCompatibility (track_bpm track1) (track_bpm track2))"
  have w: "weightedScore ?k ?b = of_int (3 * ?k div 5 + 2 * ?b div 5)"
    using key_score_range bpm_score_range by (rule weightedScore_exact)
  have x: "(of_int ?k :: rat) * (6 / 10) + of_int ?b * (4 / 10) =
      of_int (3 * ?k div 5 + 2 * ?b div 5)"
    using key_score_range bpm_score_range by (rule exact_weighting)
  show ?thesis
    unfolding Let_def overall_fields w x Math_round_of_int tierOf_of_int by simp
qed

theorem overall_label_from_rounded_score_witness:
  "overall_score (overall (calculateOverallCompatibility
      \<lparr>track_key = Some ''C Major'', track_bpm = Some ''120''\<rparr>
      \<lparr>track_key = Some ''G Major'', track_bpm = Some ''122''\<rparr>)) = 86 \<and>
   overall_compatibility (overall (calculateOverallCompatibility
      \<lparr>track_key = Some ''C Major'', track_bpm = Some ''120''\<rparr>
      \<lparr>track_key = Some ''G Major'', track_bpm = Some ''122''\<rparr>)) = ''very-good''"
proof -
  let ?v = "calculateOverallCompatibility
      \<lparr>track_key = Some ''C Major'', track_bpm = Some ''120''\<rparr>
      \<lparr>track_key = Some ''G Major'', track_bpm = Some ''122''\<rparr>"
  have s: "overall_score (overall ?v) = 86"
    by (simp add: overall_score_exact keyCompat_examples bpm_examples)
  from overall_label_from_rounded_score [of
      "\<lparr>track_key = Some ''C Major'', track_bpm = Some ''120''\<rparr>"
      "\<lparr>track_key = Some ''G Major'', track_bpm = Some ''122''\<rparr>"]
  have "overall_compatibility (overall ?v) = specified_tier (overall_score (overall ?v))"
    by (simp add: Let_def)
  with s show ?thesis by (simp add: specified_tier_def)
qed

subsection \<open>Malformed keys and tempi\<close>

text \<open>
  Claim C6. For all key and tempo strings, however malformed,
  \<open>calculateOverallCompatibility\<close> returns a verdict; the model has no error value
  because no operation the function applies to a string can throw. A key that does not
  parse gives the key result \<open>unknown\<close>, 0, \<open>Invalid key data\<close>, and a tempo that does not
  parse gives the tempo result \<open>unknown\<close>, 0, \<open>Invalid BPM data\<close>; the key result depends
  on the keys only and the tempo result on the tempi only, so the other side is
  classified as usual; the overall score, between 0 and 100, its tier, the description
  and the two pieces of mixing advice are produced from the two results.
\<close>

theorem malformed_input_is_unknown:
  "let v = calculateOverallCompatibility
             \<lparr>track_key = k1, track_bpm = b1\<rparr> \<lparr>track_key = k2, track_bpm = b2\<rparr>
   in key_compat v = calculateKeyCompatibility k1 k2 \<and>
      bpm_compat v = calculateBpmCompatibility b1 b2 \<and>
      (\<not> isValid (parseKey k1) \<or> \<not> isValid (parseKey k2) \<longrightarrow>
         key_compat v =
           \<lparr>compatibility = ''unknown'', score = 0, reason = ''Invalid key data''\<rparr>) \<and>
      (isNaN (parseInt b1) \<or> isNaN (parseInt b2) \<longrightarrow>
         bpm_compat v =
           \<lparr>compatibility = ''unknown'', score = 0, reason = ''Invalid BPM data''\<rparr>) \<and>
      overall_score (overall v) =
        Math_round (weightedScore (score (key_compat v)) (score (bpm_compat v))) \<and>
      0 \<le> overall_score (overall v) \<and> overall_score (overall v) \<le> 100 \<and>
      overall_compatibility (overall v) =
        tierOf (weightedScore (score (key_compat v)) (score (bpm_compat v))) \<and>
      description (overall v) =
        getCompatibilityDescription (overall_compatibility (overall v)) \<and>
      mixing_advice v = getMixingAdvice (key_compat v) (bpm_compat v) \<and>
      length (mixing_advice v) = 2"
proof -
  have "length (getMixingAdvice a b) = 2" for a b
    by (simp add: getMixingAdvice_def)
  then show ?thesis
    unfolding Let_def
    using overall_score_bounds
      [of "\<lparr>track_key = k1, track_bpm = b1\<rparr>" "\<lparr>track_key = k2, track_bpm = b2\<rparr>"]
    by (simp add: overall_fields keyCompat_invalid bpm_unparseable)
qed

theorem malformed_input_is_unknown_witness:
  "key_compat (calculateOverallCompatibility
      \<lparr>track_key = Some ''C Major'', track_bpm = Some ''120''\<rparr>
      \<lparr>track_key = Some ''H minor'', track_bpm = Some ''123''\<rparr>) =
     \<lparr>compatibility = ''unknown'', score = 0, reason = ''Invalid key data''\<rparr> \<and>
   bpm_compat (calculateOverallCompatibility
      \<lparr>track_key = Some ''C Major'', track_bpm = Some ''120''\<rparr>
      \<lparr>track_key = Some ''H minor'', track_bpm = Some ''123''\<rparr>) =
     \<lparr>compatibility = ''excellent'', score = 95,
      reason = ''Within 5 BPM (3 BPM difference)''\<rparr> \<and>
   bpm_compat (calculateOverallCompatibility
      \<lparr>track_key = Some ''C Major'', track_bpm = Some ''120''\<rparr>
      \<lparr>track_key = Some ''Am'', track_bpm = Some ''fast''\<rparr>) =
     \<lparr>compatibility = ''unknown'', score = 0, reason = ''Invalid BPM data''\<rparr> \<and>
   key_compat (calculateOverallCompatibility
      \<lparr>track_key = Some ''C Major'', track_bpm = Some ''120''\<rparr>
      \<lparr>track_key = Some ''Am'', track_bpm = Some ''fast''\<rparr>) =
     \<lparr>compatibility = ''excellent'', score = 95, reason = ''Relative major/minor keys''\<rparr>"
proof -
  have k: "\<not> isValid (parseKey (Some ''C Major'')) \<or> \<not> isValid (parseKey (Some ''H minor''))"
    by (simp add: parse_not_a_key invalid_key_def)
  have b: "isNaN (parseInt (Some ''120'')) \<or> isNaN (parseInt (Some ''fast''))"
    by (simp add: parseInt_examples isNaN_def)
  note t1 = malformed_input_is_unknown
    [of "Some ''C Major''" "Some ''120''" "Some ''H minor''" "Some ''123''", unfolded Let_def]
  from t1 k
  have 1: "key_compat (calculateOverallCompatibility
      \<lparr>track_key = Some ''C Major'', track_bpm = Some ''120''\<rparr>
      \<lparr>track_key = Some ''H minor'', track_bpm = Some ''123''\<rparr>) =
     \<lparr>compatibility = ''unknown'', score = 0, reason = ''Invalid key data''\<rparr>"
    and 2: "bpm_compat (calculateOverallCompatibility
      \<lparr>track_key = Some ''C Major'', track_bpm = Some ''120''\<rparr>
      \<lparr>track_key = Some ''H minor'', track_bpm = Some ''123''\<rparr>) =
     calculateBpmCompatibility (Some ''120'') (Some ''123'')"
    by blast+
  note t2 = malformed_input_is_unknown
    [of "Some ''C Major''" "Some ''120''" "Some ''Am''" "Some ''fast''", unfolded Let_def]
  from t2 b
  have 3: "bpm_compat (calculateOverallCompatibility
      \<lparr>track_key = Some ''C Major'', track_bpm = Some ''120''\<rparr>
      \<lparr>track_key = Some ''Am'', track_bpm = Some ''fast''\<rparr>) =
     \<lparr>compatibility = ''unknown'', score = 0, reason = ''Invalid BPM data''\<rparr>"
    and 4: "key_compat (calculateOverallCompatibility
      \<lparr>track_key = Some ''C Major'', track_bpm = Some ''120''\<rparr>
      \<lparr>track_key = Some ''Am'', track_bpm = Some ''fast''\<rparr>) =
     calculateKeyCompatibility (Some ''C Major'') (Some ''Am'')"
    by blast+
  from 1 2 3 4 show ?thesis by (simp only: bpm_examples keyCompat_examples simp_thms)
qed

subsection \<open>Filtering and ranking candidates\<close>

lemma collectCompatible_filter:
  "collectCompatible r m cs acc =
     acc @ filter (\<lambda>c. m \<le> of_int (track_score c))
       (map (\<lambda>t. \<lparr>track = t, compatibility_info =
          calculateOverallCompatibility (track_data_of r) (track_data_of t)\<rparr>) cs)"
  by (induction cs arbitrary: acc) (simp_all add: Let_def track_score_def)

lemma sort_insert_insort:
  "sort_insert (\<lambda>a b. f b - f a) x ys = insort_key (\<lambda>c. - f c) x ys" for f :: "'a \<Rightarrow> int"
  by (induction ys) simp_all

lemma array_sort_sort_key:
  "array_sort (\<lambda>a b. f b - f a) xs = sort_key (\<lambda>c. - f c) xs" for f :: "'a \<Rightarrow> int"
  by (induction xs) (simp_all add: sort_insert_insort)

lemma track_score_bounds:
  "0 \<le> track_score \<lparr>track = t, compatibility_info = calculateOverallCompatibility a b\<rparr> \<and>
   track_score \<lparr>track = t, compatibility_info = calculateOverallCompatibility a b\<rparr> \<le> 100"
  using overall_score_bounds [of a b] by (simp add: track_score_def)

text \<open>
  Claim C5. For every reference track, candidate list and minimum score,
  \<open>findCompatibleTracks\<close> returns exactly the candidates whose overall score is at least
  the minimum score, each as the candidate itself with its verdict attached (\<open>result\<close> and
  \<open>kept\<close> are the same multiset), ordered by non-increasing overall score, candidates
  with the same score keeping the order of the input. A minimum score of 0 or less
  keeps all candidates; no candidate, or none that reaches the minimum, gives the empty
  list.
\<close>

theorem findCompatibleTracks_filter_and_rank:
  "let attach = (\<lambda>t :: 'a track. \<lparr>track = t, compatibility_info =
         calculateOverallCompatibility (track_data_of referenceTrack) (track_data_of t)\<rparr>);
       kept = filter (\<lambda>c. minScore \<le> of_int (track_score c)) (map attach candidateTracks);
       result = findCompatibleTracks referenceTrack candidateTracks minScore
   in mset result = mset kept \<and>
      sorted_wrt (\<lambda>a b. track_score b \<le> track_score a) result \<and>
      (\<forall>s. filter (\<lambda>c. track_score c = s) result = filter (\<lambda>c. track_score c = s) kept) \<and>
      (minScore \<le> 0 \<longrightarrow> kept = map attach candidateTracks \<and>
         length result = length candidateTracks) \<and>
      (kept = [] \<longrightarrow> result = []) \<and>
      (candidateTracks = [] \<longrightarrow> result = [])"
proof -
  define attach where "attach = (\<lambda>t :: 'a track. \<lparr>track = t, compatibility_info =
         calculateOverallCompatibility (track_data_of referenceTrack) (track_data_of t)\<rparr>)"
  define kept where
    "kept = filter (\<lambda>c. minScore \<le> of_int (track_score c)) (map attach candidateTracks)"
  define result where "result = findCompatibleTracks referenceTrack candidateTracks minScore"
  have r: "result = sort_key (\<lambda>c. - track_score c) kept"
    by (simp add: result_def findCompatibleTracks_def collectCompatible_filter
        array_sort_sort_key kept_def attach_def)
  have 1: "mset result = mset kept" by (simp add: r)
  have "sorted (map (\<lambda>c. - track_score c) result)" by (simp add: r)
  then have 2: "sorted_wrt (\<lambda>a b. track_score b \<le> track_score a) result"
    by (simp add: sorted_map)
  have 3: "filter (\<lambda>c. track_score c = s) result = filter (\<lambda>c. track_score c = s) kept" for s
    using sort_key_stable [of "\<lambda>c. - track_score c" "- s" kept] by (simp add: r)
  have 4: "kept = map attach candidateTracks" if "minScore \<le> 0"
  proof -
    have "minScore \<le> of_int (track_score (attach t))" for t
    proof -
      have "0 \<le> track_score (attach t)"
        using track_score_bounds [of t "track_data_of referenceTrack" "track_data_of t"]
        by (simp add: attach_def)
      then have "(0::rat) \<le> of_int (track_score (attach t))" by simp
      with that show ?thesis by linarith
    qed
    then show ?thesis by (simp add: kept_def)
  qed
  have 5: "length result = length candidateTracks" if "minScore \<le> 0"
    using 4 [OF that] by (simp add: r)
  have 6: "result = []" if "kept = []" using that by (simp add: r)
  have 7: "result = []" if "candidateTracks = []" using that by (simp add: r kept_def)
  from 1 2 3 4 5 6 7 show ?thesis
    unfolding Let_def attach_def [symmetric] kept_def [symmetric] result_def [symmetric]
    by blast
qed


theorem findCompatibleTracks_filter_and_rank_witness:
  "map (\<lambda>c. (other_fields (track c), track_score c))
     (findCompatibleTracks
       \<lparr>track_key_info = Some \<lparr>info_key = Some ''C Major'', info_bpm = Some ''120''\<rparr>, other_fields = 0 :: nat\<rparr>
       [\<lparr>track_key_info = Some \<lparr>info_key = Some ''C Major'', info_bpm = Some ''120''\<rparr>, other_fields = 1\<rparr>,
        \<lparr>track_key_info = Some \<lparr>info_key = Some ''G Major'', info_bpm = Some ''122''\<rparr>, other_fields = 2\<rparr>,
        \<lparr>track_key_info = Some \<lparr>info_key = Some ''F# Major'', info_bpm = Some ''180''\<rparr>, other_fields = 3\<rparr>] 60) = [(1, 100), (2, 86)] \<and>
   length (findCompatibleTracks
       \<lparr>track_key_info = Some \<lparr>info_key = Some ''C Major'', info_bpm = Some ''120''\<rparr>, other_fields = 0 :: nat\<rparr>
       [\<lparr>track_key_info = Some \<lparr>info_key = Some ''C Major'', info_bpm = Some ''120''\<rparr>, other_fields = 1\<rparr>,
        \<lparr>track_key_info = Some \<lparr>info_key = Some ''G Major'', info_bpm = Some ''122''\<rparr>, other_fields = 2\<rparr>,
        \<lparr>track_key_info = Some \<lparr>info_key = Some ''F# Major'', info_bpm = Some ''180''\<rparr>, other_fields = 3\<rparr>] 0) = 3 \<and>
   (findCompatibleTracks
       \<lparr>track_key_info = Some \<lparr>info_key = Some ''C Major'', info_bpm = Some ''120''\<rparr>, other_fields = 0 :: nat\<rparr>
       [\<lparr>track_key_info = Some \<lparr>info_key = Some ''C Major'', info_bpm = Some ''120''\<rparr>, other_fields = 1\<rparr>,
        \<lparr>track_key_info = Some \<lparr>info_key = Some ''G Major'', info_bpm = Some ''122''\<rparr>, other_fields = 2\<rparr>,
        \<lparr>track_key_info = Some \<lparr>info_key = Some ''F# Major'', info_bpm = Some ''180''\<rparr>, other_fields = 3\<rparr>] 101) = []"
proof -
  let ?ref = "\<lparr>track_key_info = Some \<lparr>info_key = Some ''C Major'', info_bpm = Some ''120''\<rparr>, other_fields = 0 :: nat\<rparr>"
  let ?cands = "[\<lparr>track_key_info = Some \<lparr>info_key = Some ''C Major'', info_bpm = Some ''120''\<rparr>, other_fields = 1\<rparr>,
        \<lparr>track_key_info = Some \<lparr>info_key = Some ''G Major'', info_bpm = Some ''122''\<rparr>, other_fields = 2\<rparr>,
        \<lparr>track_key_info = Some \<lparr>info_key = Some ''F# Major'', info_bpm = Some ''180''\<rparr>, other_fields = 3\<rparr>]"
  let ?attach = "\<lambda>t :: nat track. \<lparr>track = t, compatibility_info =
      calculateOverallCompatibility (track_data_of ?ref) (track_data_of t)\<rparr>"
  have s: "track_score (?attach \<lparr>track_key_info = Some \<lparr>info_key = Some ''C Major'', info_bpm = Some ''120''\<rparr>, other_fields = 1\<rparr>) = 100"
    "track_score (?attach \<lparr>track_key_info = Some \<lparr>info_key = Some ''G Major'', info_bpm = Some ''122''\<rparr>, other_fields = 2\<rparr>) = 86"
    "track_score (?attach \<lparr>track_key_info = Some \<lparr>info_key = Some ''F# Major'', info_bpm = Some ''180''\<rparr>, other_fields = 3\<rparr>) = 42"
    by (simp_all add: track_score_def track_data_of_def overall_score_exact keyCompat_examples
        bpm_examples)
  have 1: "map (\<lambda>c. (other_fields (track c), track_score c))
     (findCompatibleTracks ?ref ?cands 60) = [(1, 100), (2, 86)]"
    using s by (simp add: findCompatibleTracks_def Let_def track_score_def)
  note t = findCompatibleTracks_filter_and_rank
    [where referenceTrack = ?ref and candidateTracks = ?cands, unfolded Let_def]
  have 2: "length (findCompatibleTracks ?ref ?cands 0) = 3"
    using t [where minScore = 0] by simp
  have "filter (\<lambda>c. 101 \<le> (of_int (track_score c) :: rat)) (map ?attach ?cands) = []"
    using s by simp
  with t [where minScore = 101] have 3: "findCompatibleTracks ?ref ?cands 101 = []"
    by blast
  from 1 2 3 show ?thesis by (simp only: simp_thms)
qed

subsection \<open>Key suggestions\<close>

lemma foldl_push_filter:
  "foldl (\<lambda>acc x. if P x then acc @ [f x] else acc) acc xs = acc @ map f (filter P xs)"
  by (induction xs arbitrary: acc) simp_all

lemma next_position: "int position = (int c + 1) mod 12 \<longleftrightarrow> position = (c + 1) mod 12"
proof -
  have "int ((c + 1) mod 12) = (int c + 1) mod 12" by (simp add: zmod_int add.commute)
  then show ?thesis by (metis of_nat_eq_iff)
qed

lemma previous_position: "int position = (int c - 1) mod 12 \<longleftrightarrow> position = (c + 11) mod 12"
proof -
  have "(int c - 1) mod 12 = (int c - 1 + 12) mod 12" by (simp only: mod_add_self2)
  also have "\<dots> = (int c + 11) mod 12" by (simp add: add.commute)
  also have "\<dots> = int ((c + 11) mod 12)" by (simp add: zmod_int add.commute)
  finally show ?thesis by (metis of_nat_eq_iff)
qed

lemma adjacent_position_iff:
  "Some position \<in> set [map_option (\<lambda>p. (p + 1) mod 12) cp, map_option (\<lambda>p. (p + 11) mod 12) cp]
   \<longleftrightarrow> (\<exists>c. cp = Some c \<and>
          (int position = (int c + 1) mod 12 \<or> int position = (int c - 1) mod 12))"
proof (cases cp)
  case None
  then show ?thesis by simp
next
  case (Some c)
  then show ?thesis
    by (simp add: next_position previous_position eq_commute [of "position"])
qed

text \<open>
  Claim C9. For an invalid reference key \<open>generateCompatibleSearchSuggestions\<close> returns
  the empty list. Otherwise it returns, in the order of the table, first every entry
  of the circle of fifths that has the circle position of the reference and another
  identity, with reason \<open>Relative major/minor\<close> and score 95, then every entry whose
  position is that of the reference plus 1 or minus 1 modulo 12, with reason
  \<open>Adjacent in circle of fifths\<close> and score 80, the whole cut to at most 10 entries.
\<close>

theorem suggestions_relative_then_adjacent:
  "let p = parseKey referenceKey;
       relative =
         filter (\<lambda>(k, position). Some position = circlePosition p \<and> Some k \<noteq> key p)
           circleOfFifths;
       adjacent =
         filter (\<lambda>(k, position). \<exists>c. circlePosition p = Some c \<and>
             (int position = (int c + 1) mod 12 \<or> int position = (int c - 1) mod 12))
           circleOfFifths;
       suggestions =
         map (\<lambda>(k, position). \<lparr>suggested_key = k,
               suggestion_reason = ''Relative major/minor'', suggestion_score = 95\<rparr>) relative @
         map (\<lambda>(k, position). \<lparr>suggested_key = k,
               suggestion_reason = ''Adjacent in circle of fifths'', suggestion_score = 80\<rparr>)
           adjacent
   in (\<not> isValid p \<longrightarrow> generateCompatibleSearchSuggestions referenceKey referenceBpm = []) \<and>
      (isValid p \<longrightarrow>
         generateCompatibleSearchSuggestions referenceKey referenceBpm = take 10 suggestions) \<and>
      length (generateCompatibleSearchSuggestions referenceKey referenceBpm) \<le> 10"
proof -
  let ?p = "parseKey referenceKey"
  have f1: "(\<lambda>suggestions (k, position).
               if Some position = circlePosition ?p \<and> Some k \<noteq> key ?p
               then suggestions @ [\<lparr>suggested_key = k,
                 suggestion_reason = ''Relative major/minor'', suggestion_score = 95\<rparr>]
               else suggestions) =
            (\<lambda>acc x. if (\<lambda>(k, position). Some position = circlePosition ?p \<and> Some k \<noteq> key ?p) x
               then acc @ [(\<lambda>(k, position). \<lparr>suggested_key = k,
                 suggestion_reason = ''Relative major/minor'', suggestion_score = 95\<rparr>) x]
               else acc)"
    by (auto simp: fun_eq_iff)
  have f2: "(\<lambda>suggestions (k, position).
               if Some position \<in> set [map_option (\<lambda>p. (p + 1) mod 12) (circlePosition ?p),
                    map_option (\<lambda>p. (p + 11) mod 12) (circlePosition ?p)]
               then suggestions @ [\<lparr>suggested_key = k,
                 suggestion_reason = ''Adjacent in circle of fifths'', suggestion_score = 80\<rparr>]
               else suggestions) =
            (\<lambda>acc x. if (\<lambda>(k, position). \<exists>c. circlePosition ?p = Some c \<and>
                   (int position = (int c + 1) mod 12 \<or> int position = (int c - 1) mod 12)) x
               then acc @ [(\<lambda>(k, position). \<lparr>suggested_key = k,
                 suggestion_reason = ''Adjacent in circle of fifths'', suggestion_score = 80\<rparr>) x]
               else acc)"
    unfolding adjacent_position_iff by (auto simp: fun_eq_iff)
  have l: "length (generateCompatibleSearchSuggestions referenceKey referenceBpm) \<le> 10"
    by (simp add: generateCompatibleSearchSuggestions_def Let_def)
  have "generateCompatibleSearchSuggestions referenceKey referenceBpm = []" if "\<not> isValid ?p"
    using that by (simp add: generateCompatibleSearchSuggestions_def Let_def)
  moreover have "generateCompatibleSearchSuggestions referenceKey referenceBpm =
      take 10
        (map (\<lambda>(k, position). \<lparr>suggested_key = k,
               suggestion_reason = ''Relative major/minor'', suggestion_score = 95\<rparr>)
           (filter (\<lambda>(k, position). Some position = circlePosition ?p \<and> Some k \<noteq> key ?p)
              circleOfFifths) @
         map (\<lambda>(k, position). \<lparr>suggested_key = k,
               suggestion_reason = ''Adjacent in circle of fifths'', suggestion_score = 80\<rparr>)
           (filter (\<lambda>(k, position). \<exists>c. circlePosition ?p = Some c \<and>
               (int position = (int c + 1) mod 12 \<or> int position = (int c - 1) mod 12))
              circleOfFifths))"
    if "isValid ?p"
    using that
    unfolding generateCompatibleSearchSuggestions_def Let_def f1 f2 foldl_push_filter
    by (simp only: if_False not_True_eq_False append_Nil)
  ultimately show ?thesis unfolding Let_def using l by blast
qed

theorem suggestions_relative_then_adjacent_witness:
  "generateCompatibleSearchSuggestions (Some ''C Major'') (Some ''120'') =
     [\<lparr>suggested_key = ''Am'', suggestion_reason = ''Relative major/minor'',
       suggestion_score = 95\<rparr>,
      \<lparr>suggested_key = ''G'', suggestion_reason = ''Adjacent in circle of fifths'',
       suggestion_score = 80\<rparr>,
      \<lparr>suggested_key = ''F'', suggestion_reason = ''Adjacent in circle of fifths'',
       suggestion_score = 80\<rparr>,
      \<lparr>suggested_key = ''Em'', suggestion_reason = ''Adjacent in circle of fifths'',
       suggestion_score = 80\<rparr>,
      \<lparr>suggested_key = ''Dm'', suggestion_reason = ''Adjacent in circle of fifths'',
       suggestion_score = 80\<rparr>] \<and>
   generateCompatibleSearchSuggestions (Some ''Unknown'') (Some ''120'') = []"
proof -
  have u: "\<not> isValid (parseKey (Some ''Unknown''))"
    by (simp add: parse_examples invalid_key_def)
  from suggestions_relative_then_adjacent [of "Some ''Unknown''" "Some ''120''", unfolded Let_def] u
  have 1: "generateCompatibleSearchSuggestions (Some ''Unknown'') (Some ''120'') = []"
    by blast
  have v: "isValid (parseKey (Some ''C Major''))"
    by (simp add: parse_C_major major_result_def)
  have p: "circlePosition (parseKey (Some ''C Major'')) = Some 0"
    "key (parseKey (Some ''C Major'')) = Some ''C''"
    by (simp_all add: parse_C_major major_result_def circleOfFifths_def)
  have rel: "filter (\<lambda>(k, position). Some position = Some (0::nat) \<and> Some k \<noteq> Some ''C'')
      circleOfFifths = [(''Am'', 0)]"
    by (simp add: circleOfFifths_def)
  have adj: "filter (\<lambda>(k, position). \<exists>c. Some (0::nat) = Some c \<and>
        (int position = (int c + 1) mod 12 \<or> int position = (int c - 1) mod 12))
      circleOfFifths = [(''G'', 1), (''F'', 11), (''Em'', 1), (''Dm'', 11)]"
    by (simp add: circleOfFifths_def)
  from suggestions_relative_then_adjacent
    [of "Some ''C Major''" "Some ''120''", unfolded Let_def p rel adj] v
  have 2: "generateCompatibleSearchSuggestions (Some ''C Major'') (Some ''120'') =
     take 10
       (map (\<lambda>(k, position). \<lparr>suggested_key = k,
              suggestion_reason = ''Relative major/minor'', suggestion_score = 95\<rparr>)
          [(''Am'', 0 :: nat)] @
        map (\<lambda>(k, position). \<lparr>suggested_key = k,
              suggestion_reason = ''Adjacent in circle of fifths'', suggestion_score = 80\<rparr>)
          [(''G'', 1 :: nat), (''F'', 11), (''Em'', 1), (''Dm'', 11)])"
    by blast
  from 1 2 show ?thesis by simp
qed

end
